theory Spec2Isabelle
  imports Main "HOL-Library.Word"
begin

section \<open>JavaScript values and completions\<close>

text \<open>
  The hardware keyring call relay (\<^verbatim>\<open>ClientKeyringController\<close>, with the module functions
  \<^verbatim>\<open>processArgs\<close>, \<^verbatim>\<open>processKeyringResponse\<close>, \<^verbatim>\<open>initializeClientKeyringController\<close> and
  \<^verbatim>\<open>handleHardwareCall\<close>) handles untyped JavaScript values. The values that reach it are
  modelled by \<open>jsval\<close>:
  \<^item> \<open>JNum\<close> is a safe integer, a whole number of magnitude below \<open>2^53\<close>: the numbers
    that \<^verbatim>\<open>String\<close> prints digit for digit. Fractions, larger numbers, NaN and the infinities
    are outside the model;
  \<^item> \<open>JObj\<close> is an object whose prototype is \<^verbatim>\<open>Object.prototype\<close> and whose own properties
    are data properties with string keys and values of the model, none of them callable;
  \<^item> \<open>JError name message cause\<close> is an \<^verbatim>\<open>Error\<close> instance with the inherited
    \<^verbatim>\<open>toString\<close>; \<open>cause = Undefined\<close> when no cause was given;
  \<^item> \<open>JTx bytes\<close> is a transaction object: the only kind of value with a callable
    \<^verbatim>\<open>serialize\<close> property, whose call returns a buffer holding \<open>bytes\<close>; it has no
    \<^verbatim>\<open>message\<close>, \<^verbatim>\<open>cause\<close> or \<^verbatim>\<open>toString\<close> of its own.
\<close>

type_synonym buffer = "8 word list"

typedef safe_int = "{n :: int. \<bar>n\<bar> < 2 ^ 53}"
  by (rule exI [of _ 0]) simp

datatype jsval =
    Undefined
  | Null
  | JBool bool
  | JNum safe_int
  | JStr string
  | JObj "(string \<times> jsval) list"
  | JError string string jsval
  | JTx buffer

text \<open>
  An evaluation either returns a value or throws one. For an \<^verbatim>\<open>async\<close> function, \<open>Ok\<close> is
  a fulfilled promise and \<open>Throw\<close> a rejected one; \<^verbatim>\<open>await\<close> turns the rejection back into
  a throw.
\<close>

datatype 'a completion = Ok 'a | Throw jsval

definition TypeError :: "string \<Rightarrow> jsval" where
  "TypeError msg = JError ''TypeError'' msg Undefined"

text \<open>Truthiness, as used by \<^verbatim>\<open>||\<close>, \<^verbatim>\<open>?:\<close> and \<^verbatim>\<open>if\<close>.\<close>

fun truthy :: "jsval \<Rightarrow> bool" where
  "truthy Undefined = False"
| "truthy Null = False"
| "truthy (JBool b) = b"
| "truthy (JNum n) = (Rep_safe_int n \<noteq> 0)"
| "truthy (JStr s) = (s \<noteq> [])"
| "truthy (JObj fs) = True"
| "truthy (JError n m c) = True"
| "truthy (JTx b) = True"

text \<open>
  Reading a data property. On \<^verbatim>\<open>undefined\<close> and \<^verbatim>\<open>null\<close> the read throws a TypeError; a
  missing property reads as \<^verbatim>\<open>undefined\<close>. The relay reads \<^verbatim>\<open>message\<close>, \<^verbatim>\<open>cause\<close> and
  \<^verbatim>\<open>serialize\<close> only; the callable \<^verbatim>\<open>serialize\<close> of a transaction object is handled in
  \<open>processKeyringResponse\<close>.
\<close>

fun get_prop :: "jsval \<Rightarrow> string \<Rightarrow> jsval completion" where
  "get_prop Undefined p = Throw (TypeError ''Cannot read properties of undefined'')"
| "get_prop Null p = Throw (TypeError ''Cannot read properties of null'')"
| "get_prop (JObj fs) p = Ok (case map_of fs p of None \<Rightarrow> Undefined | Some v \<Rightarrow> v)"
| "get_prop (JError n m c) p =
     Ok (if p = ''name'' then JStr n
         else if p = ''message'' then JStr m
         else if p = ''cause'' then c
         else Undefined)"
| "get_prop v p = Ok Undefined"

text \<open>Decimal digits of a natural number, most significant first.\<close>

fun digits :: "nat \<Rightarrow> string" where
  "digits n =
     (if n < 10 then [''0123456789'' ! n]
      else digits (n div 10) @ [''0123456789'' ! (n mod 10)])"

declare digits.simps [simp del]

text \<open>
  \<^verbatim>\<open>String(v)\<close>, which can throw. A safe integer prints its decimal digits. An \<^verbatim>\<open>Error\<close> prints
  as \<^verbatim>\<open>name: message\<close>, or as the one of the two that is not empty. For an object, the
  conversion calls its \<^verbatim>\<open>toString\<close>: the inherited one answers \<^verbatim>\<open>[object Object]\<close>; an own
  \<^verbatim>\<open>toString\<close> property of a \<open>JObj\<close> is not callable, \<^verbatim>\<open>valueOf\<close> (own and not callable, or
  inherited and returning the object) gives no primitive either, and the conversion throws a
  TypeError.
\<close>

fun ToString :: "jsval \<Rightarrow> string completion" where
  "ToString Undefined = Ok ''undefined''"
| "ToString Null = Ok ''null''"
| "ToString (JBool b) = Ok (if b then ''true'' else ''false'')"
| "ToString (JNum n) =
     Ok (if Rep_safe_int n < 0 then ''-'' @ digits (nat (- Rep_safe_int n))
         else digits (nat (Rep_safe_int n)))"
| "ToString (JStr s) = Ok s"
| "ToString (JObj fs) =
     (case map_of fs ''toString'' of
        None \<Rightarrow> Ok ''[object Object]''
      | Some v \<Rightarrow> Throw (TypeError ''Cannot convert object to primitive value''))"
| "ToString (JError n m c) =
     Ok (if n = [] then m else if m = [] then n else n @ '': '' @ m)"
| "ToString (JTx b) = Ok ''[object Object]''"

text \<open>\<^verbatim>\<open>args[i]\<close>: reading past the end of an array gives \<^verbatim>\<open>undefined\<close>.\<close>

definition index :: "jsval list \<Rightarrow> nat \<Rightarrow> jsval" where
  "index xs i = (if i < length xs then xs ! i else Undefined)"

section \<open>The relay's surroundings\<close>

text \<open>
  A keyring class of \<^verbatim>\<open>HARDWARE_KEYRINGS\<close> comes from an external package; the relay uses its
  static \<^verbatim>\<open>type\<close> (which is also the \<^verbatim>\<open>type\<close> of its instances), its constructor, and the
  methods of an instance. An instance has an in-memory state of type \<open>'s\<close>; a method takes
  the state, returns or throws, and leaves a state behind. \<open>methods\<close> is the lookup
  \<^verbatim>\<open>keyring[method]\<close>: \<open>None\<close> where the property is missing or not callable.
\<close>

type_synonym ('s, 'a) kaction = "'s \<Rightarrow> 'a completion \<times> 's"

record 's keyring_class =
  ktype :: string
  construct :: 's
  deserialize :: "jsval \<Rightarrow> ('s, unit) kaction"
  serialize :: "('s, jsval) kaction"
  methods :: "string \<Rightarrow> (jsval list \<Rightarrow> ('s, jsval) kaction) option"

record 's keyring =
  kclass :: "'s keyring_class"
  kstate :: 's

text \<open>
  What the module imports: the table \<^verbatim>\<open>HARDWARE_KEYRINGS\<close>, the transaction decoder
  \<^verbatim>\<open>buildUnserializedTxFromHex\<close> (which may throw) and \<^verbatim>\<open>bufferToHex\<close>. None of the three is
  defined in the relay's file, so they are parameters.
\<close>

record 's env =
  HARDWARE_KEYRINGS :: "'s keyring_class list"
  buildUnserializedTxFromHex :: "jsval \<Rightarrow> jsval completion"
  bufferToHex :: "buffer \<Rightarrow> string"

text \<open>
  The calls the relay makes on its surroundings, in the order it makes them: the three kinds
  of call on a keyring instance (named by the instance's type) and the call of a background
  method. Console output is left out: no \<^verbatim>\<open>console\<close> call of the relay changes its control
  flow.
\<close>

datatype event =
    Deserialize string jsval
  | Invoke string string "jsval list"
  | Serialize string
  | CallBackground string "jsval list"

text \<open>
  Modelled from the spec: \<^verbatim>\<open>callBackgroundMethod\<close> of the action queue is not part of the
  relay's file. It delivers a named remote-procedure invocation to the background context;
  the model records the invocation and returns. The third argument of the source's calls, a
  callback that logs the background's answer, is left out.
\<close>

definition callBackgroundMethod :: "string \<Rightarrow> jsval list \<Rightarrow> event list" where
  "callBackgroundMethod name params = [CallBackground name params]"

text \<open>The outcome messages among a sequence of calls.\<close>

fun outcomes :: "event list \<Rightarrow> jsval list" where
  "outcomes [] = []"
| "outcomes (CallBackground name params # es) =
     (if name = ''closeBackgroundPromise'' then params @ outcomes es else outcomes es)"
| "outcomes (e # es) = outcomes es"

section \<open>Argument and result transformation\<close>

definition processKeyringResponse :: "'s env \<Rightarrow> jsval \<Rightarrow> string \<Rightarrow> jsval completion" where
  "processKeyringResponse env res method =
     (if method = ''signTransaction'' then
        (case res of
           JTx bytes \<Rightarrow> Ok (JStr (bufferToHex env bytes))
         | JObj fs \<Rightarrow>
             (case get_prop res ''serialize'' of
                Throw e \<Rightarrow> Throw e
              | Ok f \<Rightarrow>
                  if truthy f then Throw (TypeError ''res.serialize is not a function'')
                  else Ok res)
         | _ \<Rightarrow> Ok res)
      else Ok res)"

definition processArgs :: "'s env \<Rightarrow> jsval list \<Rightarrow> string \<Rightarrow> jsval list completion" where
  "processArgs env args method =
     (if method = ''signTransaction'' then
        (case buildUnserializedTxFromHex env (index args 1) of
           Throw e \<Rightarrow> Throw e
         | Ok tx \<Rightarrow> Ok ([index args 0, tx] @ drop 2 args))
      else Ok args)"

section \<open>The relay: \<^verbatim>\<open>ClientKeyringController\<close>\<close>

text \<open>
  The controller holds the class table and one instance per class. Its methods take the
  controller (\<^verbatim>\<open>this\<close>) and return the completion, the controller with the instances as the
  calls left them, and the calls made on the surroundings, oldest first.
\<close>

record 's controller =
  keyrings :: "'s keyring_class list"
  keyringInstances :: "'s keyring list"

type_synonym ('s, 'a) relay = "'a completion \<times> 's controller \<times> event list"

definition new_ClientKeyringController :: "'s env \<Rightarrow> 's controller" where
  "new_ClientKeyringController env =
     \<lparr>keyrings = HARDWARE_KEYRINGS env,
      keyringInstances =
        map (\<lambda>KeyringClass. \<lparr>kclass = KeyringClass, kstate = construct KeyringClass\<rparr>)
          (HARDWARE_KEYRINGS env)\<rparr>"

definition getKeyringClassForType :: "'s controller \<Rightarrow> string \<Rightarrow> 's keyring_class option" where
  "getKeyringClassForType this type = find (\<lambda>kr. ktype kr = type) (keyrings this)"

definition getKeyringInstanceForType :: "'s controller \<Rightarrow> string \<Rightarrow> 's keyring option" where
  "getKeyringInstanceForType this type =
     find (\<lambda>kr. ktype (kclass kr) = type) (keyringInstances this)"

text \<open>
  \<^verbatim>\<open>find\<close> returns the instance object itself, so what a method does to the instance's state
  is seen by every later lookup: the state of the first instance of the type is replaced.
\<close>

fun store :: "string \<Rightarrow> 's \<Rightarrow> 's keyring list \<Rightarrow> 's keyring list" where
  "store type s [] = []"
| "store type s (kr # krs) =
     (if ktype (kclass kr) = type then kr\<lparr>kstate := s\<rparr> # krs else kr # store type s krs)"

definition mutate :: "'s controller \<Rightarrow> string \<Rightarrow> 's \<Rightarrow> 's controller" where
  "mutate this type s = this\<lparr>keyringInstances := store type s (keyringInstances this)\<rparr>"

definition updateKeyringData :: "'s controller \<Rightarrow> string \<Rightarrow> jsval \<Rightarrow> ('s, unit) relay" where
  "updateKeyringData this type data =
     (case getKeyringInstanceForType this type of
        None \<Rightarrow> (Throw (TypeError ''Cannot read properties of undefined''), this, [])
      | Some keyring \<Rightarrow>
          (case deserialize (kclass keyring) data (kstate keyring) of
             (r, s) \<Rightarrow> (r, mutate this type s, [Deserialize type data])))"

definition getUpdatedKeyringData :: "'s controller \<Rightarrow> string \<Rightarrow> ('s, jsval) relay" where
  "getUpdatedKeyringData this type =
     (case getKeyringInstanceForType this type of
        None \<Rightarrow> (Throw (TypeError ''Cannot read properties of undefined''), this, [])
      | Some keyring \<Rightarrow>
          (case serialize (kclass keyring) (kstate keyring) of
             (r, s) \<Rightarrow> (r, mutate this type s, [Serialize type])))"

text \<open>
  \<^verbatim>\<open>await keyring[method](...args)\<close>: a missing or non-callable property throws before any
  call is made.
\<close>

definition invoke :: "'s controller \<Rightarrow> string \<Rightarrow> string \<Rightarrow> jsval list \<Rightarrow> ('s, jsval) relay" where
  "invoke this type method args =
     (case getKeyringInstanceForType this type of
        None \<Rightarrow> (Throw (TypeError ''Cannot read properties of undefined''), this, [])
      | Some keyring \<Rightarrow>
          (case methods (kclass keyring) method of
             None \<Rightarrow> (Throw (TypeError ''keyring[method] is not a function''), this, [])
           | Some f \<Rightarrow>
               (case f args (kstate keyring) of
                  (r, s) \<Rightarrow> (r, mutate this type s, [Invoke type method args]))))"

record request =
  type :: string
  "method" :: string
  args :: "jsval list"
  prevState :: jsval
  promiseId :: jsval

text \<open>The outcome message \<^verbatim>\<open>{ promiseId, result, data }\<close>.\<close>

definition outcome :: "jsval \<Rightarrow> string \<Rightarrow> jsval \<Rightarrow> jsval" where
  "outcome pid result data =
     JObj [(''promiseId'', pid), (''result'', JStr result), (''data'', data)]"

text \<open>The body of the \<^verbatim>\<open>try\<close> block of \<^verbatim>\<open>handleMethodCall\<close>.\<close>

definition try_block :: "'s env \<Rightarrow> request \<Rightarrow> jsval list \<Rightarrow> 's controller \<Rightarrow> ('s, unit) relay" where
  "try_block env req args' this =
     (case invoke this (type req) (method req) args' of
        (Throw e, this1, ev1) \<Rightarrow> (Throw e, this1, ev1)
      | (Ok res0, this1, ev1) \<Rightarrow>
          (case processKeyringResponse env res0 (method req) of
             Throw e \<Rightarrow> (Throw e, this1, ev1)
           | Ok res \<Rightarrow>
               (case getUpdatedKeyringData this1 (type req) of
                  (Throw e, this2, ev2) \<Rightarrow> (Throw e, this2, ev1 @ ev2)
                | (Ok newState, this2, ev2) \<Rightarrow>
                    (Ok (), this2,
                     ev1 @ ev2 @
                     callBackgroundMethod ''closeBackgroundPromise''
                       [outcome (promiseId req) ''resolve''
                          (JObj [(''newState'', newState), (''response'', res)])]))))"

text \<open>
  \<^verbatim>\<open>e.message || e.cause || String(e)\<close>. The first read throws when \<open>e\<close> is \<^verbatim>\<open>undefined\<close> or
  \<^verbatim>\<open>null\<close>; \<^verbatim>\<open>||\<close> evaluates its right operand only when the left one is not truthy, so
  \<^verbatim>\<open>String(e)\<close> is evaluated, and can throw, only when neither message nor cause is truthy.
\<close>

definition reject_data :: "jsval \<Rightarrow> jsval completion" where
  "reject_data e =
     (case get_prop e ''message'' of
        Throw t \<Rightarrow> Throw t
      | Ok m \<Rightarrow>
          if truthy m then Ok m
          else (case get_prop e ''cause'' of
                  Throw t \<Rightarrow> Throw t
                | Ok c \<Rightarrow>
                    if truthy c then Ok c
                    else (case ToString e of
                            Throw t \<Rightarrow> Throw t
                          | Ok str \<Rightarrow> Ok (JStr str))))"

text \<open>
  The \<^verbatim>\<open>catch\<close> block. It reads \<^verbatim>\<open>keyring.type\<close> for its log line first, which throws when the
  lookup before the \<^verbatim>\<open>try\<close> found no instance.
\<close>

definition catch_block :: "request \<Rightarrow> 's keyring option \<Rightarrow> jsval \<Rightarrow> 's controller \<Rightarrow> ('s, unit) relay" where
  "catch_block req keyring e this =
     (case keyring of
        None \<Rightarrow> (Throw (TypeError ''Cannot read properties of undefined''), this, [])
      | Some kr \<Rightarrow>
          (case reject_data e of
             Throw t \<Rightarrow> (Throw t, this, [])
           | Ok data \<Rightarrow>
               (Ok (), this,
                callBackgroundMethod ''closeBackgroundPromise''
                  [outcome (promiseId req) ''reject'' data])))"

definition handleMethodCall :: "'s env \<Rightarrow> 's controller \<Rightarrow> request \<Rightarrow> ('s, unit) relay" where
  "handleMethodCall env this req =
     (case updateKeyringData this (type req) (prevState req) of
        (Throw e, this1, ev1) \<Rightarrow> (Throw e, this1, ev1)
      | (Ok u, this1, ev1) \<Rightarrow>
          (case processArgs env (args req) (method req) of
             Throw e \<Rightarrow> (Throw e, this1, ev1)
           | Ok args' \<Rightarrow>
               (case try_block env req args' this1 of
                  (Ok u, this2, ev2) \<Rightarrow> (Ok u, this2, ev1 @ ev2)
                | (Throw e, this2, ev2) \<Rightarrow>
                    (case catch_block req (getKeyringInstanceForType this1 (type req)) e this2 of
                       (r, this3, ev3) \<Rightarrow> (r, this3, ev1 @ ev2 @ ev3)))))"

section \<open>The module: singleton and focus gate\<close>

text \<open>
  The module-level variable \<^verbatim>\<open>clientKeyringController\<close> (\<open>None\<close> while it is
  \<^verbatim>\<open>undefined\<close>), what \<^verbatim>\<open>document.hasFocus()\<close> answers, and every call made so far.
\<close>

record 's world =
  clientKeyringController :: "'s controller option"
  documentHasFocus :: bool
  effects :: "event list"

definition initializeClientKeyringController :: "'s env \<Rightarrow> 's world \<Rightarrow> 's world" where
  "initializeClientKeyringController env w =
     (case clientKeyringController w of
        Some c \<Rightarrow> w
      | None \<Rightarrow> w\<lparr>clientKeyringController := Some (new_ClientKeyringController env)\<rparr>)"

text \<open>
  \<^verbatim>\<open>handleHardwareCall\<close> does not await the promise of \<^verbatim>\<open>handleMethodCall\<close>. The model runs the
  call to its end; a \<open>Throw\<close> in the result is the rejection of that promise, which nothing
  handles: it reaches the hosting context as an unhandled rejection. Two calls whose awaits
  interleave are outside the model: each call is handled to completion before the next.
\<close>

definition handleHardwareCall :: "'s env \<Rightarrow> request \<Rightarrow> 's world \<Rightarrow> unit completion \<times> 's world" where
  "handleHardwareCall env params w =
     (let w1 = initializeClientKeyringController env w in
      if documentHasFocus w1 then
        (case clientKeyringController w1 of
           None \<Rightarrow> (Throw (TypeError ''Cannot read properties of undefined''), w1)
         | Some this \<Rightarrow>
             (case handleMethodCall env this params of
                (r, this', ev) \<Rightarrow>
                  (r, w1\<lparr>clientKeyringController := Some this', effects := effects w1 @ ev\<rparr>)))
      else (Ok (), w1))"

section \<open>The state a call leaves\<close>

text \<open>
  What the steps of the \<^verbatim>\<open>try\<close> block leave as the instance's state, given the completion
  and state \<open>result\<close> of the keyring method: the method's own state when it throws or when
  the result transformation throws, and otherwise the state that \<^verbatim>\<open>serialize\<close> leaves.
\<close>

definition state_after_call ::
  "'s env \<Rightarrow> 's keyring_class \<Rightarrow> string \<Rightarrow> jsval completion \<times> 's \<Rightarrow> 's" where
  "state_after_call env K m result =
     (case result of
        (Throw e, s2) \<Rightarrow> s2
      | (Ok res0, s2) \<Rightarrow>
          (case processKeyringResponse env res0 m of
             Throw e \<Rightarrow> s2
           | Ok res \<Rightarrow> snd (serialize K s2)))"

text \<open>
  Two controllers with the same class table and instances of the same classes in the same
  order; they differ in the instances' states at most.
\<close>

definition same_classes :: "'s controller \<Rightarrow> 's controller \<Rightarrow> bool" where
  "same_classes a b \<longleftrightarrow>
     keyrings a = keyrings b
     \<and> map kclass (keyringInstances a) = map kclass (keyringInstances b)"

section \<open>An example environment\<close>

text \<open>
  Two keyring classes whose state is the object last deserialized. The \<open>ledger\<close> class
  signs a transaction when its state has \<^verbatim>\<open>approve: true\<close> and throws
  \<^verbatim>\<open>Error("User rejected")\<close> otherwise; its \<^verbatim>\<open>unlock\<close> throws the \<^verbatim>\<open>fault\<close> recorded in its
  state, when there is one. The \<open>trezor\<close> class has no callable method. The
  decoder accepts the one-byte transaction \<^verbatim>\<open>0xf8\<close>; \<open>bufferToHex\<close> prints \<^verbatim>\<open>0x\<close> and two
  hexadecimal digits per byte.
\<close>

definition hex_byte :: "8 word \<Rightarrow> string" where
  "hex_byte b = [''0123456789abcdef'' ! (unat b div 16), ''0123456789abcdef'' ! (unat b mod 16)]"

definition ledger_signTransaction :: "jsval list \<Rightarrow> (jsval, jsval) kaction" where
  "ledger_signTransaction a s =
     (if get_prop s ''approve'' = Ok (JBool True) then
        (case index a 1 of
           JTx b \<Rightarrow> (Ok (JTx (b @ [27])), s)
         | _ \<Rightarrow> (Throw (JError ''Error'' ''not a transaction'' Undefined), s))
      else (Throw (JError ''Error'' ''User rejected'' Undefined), s))"

definition ledger_getAccounts :: "jsval list \<Rightarrow> (jsval, jsval) kaction" where
  "ledger_getAccounts a s = (get_prop s ''accounts'', s)"

definition ledger_unlock :: "jsval list \<Rightarrow> (jsval, jsval) kaction" where
  "ledger_unlock a s =
     (case get_prop s ''fault'' of
        Throw t \<Rightarrow> (Throw t, s)
      | Ok fault \<Rightarrow> if fault = Undefined then (Ok (JStr ''unlocked''), s) else (Throw fault, s))"

definition example_ledger :: "jsval keyring_class" where
  "example_ledger =
     \<lparr>ktype = ''ledger'',
      construct = JObj [],
      deserialize = (\<lambda>data s. (Ok (), data)),
      serialize = (\<lambda>s. (Ok s, s)),
      methods = (\<lambda>m.
        if m = ''signTransaction'' then Some ledger_signTransaction
        else if m = ''getAccounts'' then Some ledger_getAccounts
        else if m = ''unlock'' then Some ledger_unlock
        else None)\<rparr>"

definition example_trezor :: "jsval keyring_class" where
  "example_trezor =
     \<lparr>ktype = ''trezor'',
      construct = JObj [],
      deserialize = (\<lambda>data s. (Ok (), data)),
      serialize = (\<lambda>s. (Ok s, s)),
      methods = (\<lambda>m. None)\<rparr>"

definition example_env :: "jsval env" where
  "example_env =
     \<lparr>HARDWARE_KEYRINGS = [example_trezor, example_ledger],
      buildUnserializedTxFromHex = (\<lambda>v.
        if v = JStr ''0xf8'' then Ok (JTx [248])
        else Throw (JError ''Error'' ''invalid transaction'' Undefined)),
      bufferToHex = (\<lambda>bytes. ''0x'' @ concat (map hex_byte bytes))\<rparr>"

definition example_request :: "string \<Rightarrow> string \<Rightarrow> jsval list \<Rightarrow> jsval \<Rightarrow> request" where
  "example_request ty m a st =
     \<lparr>type = ty, method = m, args = a, prevState = st, promiseId = JStr ''p1''\<rparr>"

text \<open>A document in which the relay was never used, with or without input focus.\<close>

definition example_world :: "bool \<Rightarrow> jsval world" where
  "example_world focus =
     \<lparr>clientKeyringController = None, documentHasFocus = focus, effects = []\<rparr>"

section \<open>Values, evaluated\<close>

text \<open>Truthiness and \<^verbatim>\<open>String\<close> on one value of each kind.\<close>

lemma truthy_examples:
  "\<not> truthy Undefined" "\<not> truthy Null" "\<not> truthy (JBool False)" "truthy (JBool True)"
  "\<not> truthy (JNum (Abs_safe_int 0))" "truthy (JNum (Abs_safe_int (- 7)))"
  "\<not> truthy (JStr [])" "truthy (JStr ''0'')" "truthy (JObj [])"
  "truthy (JError [] [] Undefined)" "truthy (JTx [])"
  by (simp_all add: Abs_safe_int_inverse)

lemma ToString_examples:
  "ToString (JBool False) = Ok ''false''"
  "ToString (JNum (Abs_safe_int 0)) = Ok ''0''"
  "ToString (JNum (Abs_safe_int 9007199254740991)) = Ok ''9007199254740991''"
  "ToString (JNum (Abs_safe_int (- 42))) = Ok ''-42''"
  "ToString (JStr ''boom'') = Ok ''boom''"
  "ToString (JObj [(''code'', JStr ''E1'')]) = Ok ''[object Object]''"
  "ToString (JObj [(''toString'', JStr ''x'')])
     = Throw (TypeError ''Cannot convert object to primitive value'')"
  "ToString (JObj [(''toString'', Undefined)])
     = Throw (TypeError ''Cannot convert object to primitive value'')"
  "ToString (JError ''Error'' ''User rejected'' Undefined) = Ok ''Error: User rejected''"
  "ToString (JError ''Error'' [] Undefined) = Ok ''Error''"
  "ToString (JError [] ''lost'' Undefined) = Ok ''lost''"
  by (simp_all add: Abs_safe_int_inverse digits.simps)

lemma reject_data_examples:
  "reject_data (JError ''Error'' ''User rejected'' (JStr ''x'')) = Ok (JStr ''User rejected'')"
  "reject_data (JError ''Error'' [] (JStr ''device locked'')) = Ok (JStr ''device locked'')"
  "reject_data (JError ''Error'' [] (JStr [])) = Ok (JStr ''Error'')"
  "reject_data (JStr ''boom'') = Ok (JStr ''boom'')"
  "reject_data (JObj [(''message'', JStr []), (''cause'', JObj [])]) = Ok (JObj [])"
  "reject_data (JObj [(''toString'', JStr ''x'')])
     = Throw (TypeError ''Cannot convert object to primitive value'')"
  "reject_data (JObj [(''toString'', JStr ''x''), (''message'', JStr ''m'')]) = Ok (JStr ''m'')"
  "reject_data Null = Throw (TypeError ''Cannot read properties of null'')"
  by (simp_all add: reject_data_def)

section \<open>Lemmas on the steps of a call\<close>

subsection \<open>Replacing the state of an instance\<close>

text \<open>Looking an instance up after its state was replaced finds the same instance.\<close>

lemma find_store:
  "find (\<lambda>kr. ktype (kclass kr) = ty) krs = Some kr \<Longrightarrow>
   find (\<lambda>kr. ktype (kclass kr) = ty) (store ty s krs) = Some (kr\<lparr>kstate := s\<rparr>)"
  by (induction krs) (auto split: if_splits)

lemma store_store: "store ty s (store ty s' krs) = store ty s krs"
  by (induction krs) auto

lemma map_kclass_store: "map kclass (store ty s krs) = map kclass krs"
  by (induction krs) auto

lemma getKeyringInstanceForType_mutate:
  "getKeyringInstanceForType this ty = Some kr \<Longrightarrow>
   getKeyringInstanceForType (mutate this ty s) ty = Some (kr\<lparr>kstate := s\<rparr>)"
  by (simp add: getKeyringInstanceForType_def mutate_def find_store)

lemma mutate_mutate: "mutate (mutate this ty s') ty s = mutate this ty s"
  by (simp add: mutate_def store_store)

lemma find_None_types:
  "ty \<notin> set (map ktype (map kclass krs)) \<Longrightarrow> find (\<lambda>kr. ktype (kclass kr) = ty) krs = None"
  by (induction krs) auto

lemma length_filter_distinct:
  "distinct (map f xs) \<Longrightarrow> x \<in> set xs \<Longrightarrow> length (filter (\<lambda>y. f y = f x) xs) = 1"
proof (induction xs)
  case Nil
  then show ?case by simp
next
  case (Cons a xs)
  show ?case
  proof (cases "f a = f x")
    case True
    from Cons.prems(1) have "f a \<notin> f ` set xs" by simp
    with True have "\<forall>y\<in>set xs. f y \<noteq> f x" by (metis imageI)
    then have "filter (\<lambda>y. f y = f x) xs = []"
      by (simp add: filter_empty_conv)
    with True show ?thesis by simp
  next
    case False
    with Cons show ?thesis by auto
  qed
qed

lemma updateKeyringData_found:
  assumes "getKeyringInstanceForType this ty = Some kr"
    and "deserialize (kclass kr) d (kstate kr) = (r, s)"
  shows "updateKeyringData this ty d = (r, mutate this ty s, [Deserialize ty d])"
  using assms by (simp add: updateKeyringData_def)

lemma invoke_found:
  assumes "getKeyringInstanceForType this ty = Some kr"
    and "methods (kclass kr) m = Some f"
    and "f a (kstate kr) = (r, s)"
  shows "invoke this ty m a = (r, mutate this ty s, [Invoke ty m a])"
  using assms by (simp add: invoke_def)

lemma invoke_not_callable:
  assumes "getKeyringInstanceForType this ty = Some kr"
    and "methods (kclass kr) m = None"
  shows "invoke this ty m a = (Throw (TypeError ''keyring[method] is not a function''), this, [])"
  using assms by (simp add: invoke_def)

lemma getUpdatedKeyringData_found:
  assumes "getKeyringInstanceForType this ty = Some kr"
    and "serialize (kclass kr) (kstate kr) = (r, s)"
  shows "getUpdatedKeyringData this ty = (r, mutate this ty s, [Serialize ty])"
  using assms by (simp add: getUpdatedKeyringData_def)

subsection \<open>Calls and outcomes of each step\<close>

text \<open>The calls each step makes, and the outcome messages among them.\<close>

lemma outcomes_append: "outcomes (xs @ ys) = outcomes xs @ outcomes ys"
  by (induction xs rule: outcomes.induct) auto

lemma outcome_neq: "outcome pid ''reject'' d \<noteq> outcome pid' ''resolve'' d'"
  by (simp add: outcome_def)

lemma invoke_outcomes: "invoke this ty m a = (r, this', ev) \<Longrightarrow> outcomes ev = []"
  by (auto simp: invoke_def split: option.splits prod.splits)

lemma invoke_events: "invoke this ty m a = (r, this', ev) \<Longrightarrow> ev = [] \<or> ev = [Invoke ty m a]"
  by (auto simp: invoke_def split: option.splits prod.splits)

lemma getUpdatedKeyringData_events:
  "getUpdatedKeyringData this ty = (r, this', ev) \<Longrightarrow> ev = [] \<or> ev = [Serialize ty]"
  by (auto simp: getUpdatedKeyringData_def split: option.splits prod.splits)

lemma updateKeyringData_events:
  "updateKeyringData this ty d = (r, this', ev) \<Longrightarrow> ev = [] \<or> ev = [Deserialize ty d]"
  by (auto simp: updateKeyringData_def split: option.splits prod.splits)

lemma try_block_Throw_outcomes:
  "try_block env req a this = (Throw e, this', ev) \<Longrightarrow> outcomes ev = []"
  by (auto simp: try_block_def outcomes_append callBackgroundMethod_def
      dest!: invoke_outcomes getUpdatedKeyringData_events
      split: prod.splits completion.splits)

lemma try_block_Ok_outcomes:
  "try_block env req a this = (Ok u, this', ev) \<Longrightarrow>
   \<exists>d. outcomes ev = [outcome (promiseId req) ''resolve'' d]"
  by (auto simp: try_block_def outcomes_append callBackgroundMethod_def
      dest!: invoke_outcomes getUpdatedKeyringData_events
      split: prod.splits completion.splits)

lemma try_block_Invoke:
  "try_block env req a this = (r, this', ev) \<Longrightarrow> Invoke t m x \<in> set ev \<Longrightarrow>
   t = type req \<and> m = method req \<and> x = a"
  by (auto simp: try_block_def callBackgroundMethod_def
      dest!: invoke_events getUpdatedKeyringData_events
      split: prod.splits completion.splits)

lemma catch_block_outcomes:
  "catch_block req k e this = (r, this', ev) \<Longrightarrow>
   (r = Ok () \<and> (\<exists>d. reject_data e = Ok d \<and> outcomes ev = [outcome (promiseId req) ''reject'' d])) \<or>
   ((\<exists>t. r = Throw t) \<and> outcomes ev = [])"
  by (auto simp: catch_block_def callBackgroundMethod_def
      split: prod.splits completion.splits option.splits)

lemma catch_block_events:
  "catch_block req k e this = (r, this', ev) \<Longrightarrow>
   ev = [] \<or> (\<exists>d. ev = [CallBackground ''closeBackgroundPromise'' [d]])"
  by (auto simp: catch_block_def callBackgroundMethod_def
      split: prod.splits completion.splits option.splits)

lemma catch_block_this: "catch_block req k e this = (r, this', ev) \<Longrightarrow> this' = this"
  by (auto simp: catch_block_def split: option.splits completion.splits)

section \<open>Lemmas on a whole call\<close>

subsection \<open>What every call satisfies\<close>

text \<open>
  A method is invoked with the transformed arguments only. A call that completes has emitted
  exactly one outcome, with the request's \<open>promiseId\<close>; a call whose promise rejects has
  emitted none. For a supported type the first call made is the one \<^verbatim>\<open>deserialize\<close>.
\<close>

lemma handleMethodCall_Invoke:
  assumes "handleMethodCall env this req = (r, this', evs)"
    and "Invoke t m x \<in> set evs"
  shows "t = type req \<and> m = method req \<and> processArgs env (args req) (method req) = Ok x"
  using assms
  by (auto simp: handleMethodCall_def
      dest!: updateKeyringData_events try_block_Invoke catch_block_events
      split: prod.splits completion.splits)

lemma handleMethodCall_outcomes:
  assumes "handleMethodCall env this req = (r, this', evs)"
  shows "(r = Ok () \<and> (\<exists>d. outcomes evs = [outcome (promiseId req) ''resolve'' d]
                          \<or> outcomes evs = [outcome (promiseId req) ''reject'' d]))
       \<or> ((\<exists>t. r = Throw t) \<and> outcomes evs = [])"
  using assms
  by (auto simp: handleMethodCall_def outcomes_append
      dest!: updateKeyringData_events try_block_Throw_outcomes try_block_Ok_outcomes
        catch_block_outcomes
      split: prod.splits completion.splits)

lemma handleMethodCall_Deserialize_once:
  assumes found: "getKeyringInstanceForType this (type req) = Some kr"
    and call: "handleMethodCall env this req = (r, this', evs)"
  shows "\<exists>rest. evs = Deserialize (type req) (prevState req) # rest
           \<and> (\<forall>t d. Deserialize t d \<notin> set rest)"
  using assms
  by (auto simp: handleMethodCall_def updateKeyringData_def try_block_def
      callBackgroundMethod_def
      dest!: invoke_events getUpdatedKeyringData_events catch_block_events
      split: prod.splits completion.splits)

subsection \<open>The method is reached\<close>

text \<open>
  The path on which every step succeeds: four calls in order, the last one the resolve
  outcome; the instance is left in the state that \<^verbatim>\<open>serialize\<close> left. And whatever the method
  does, it runs on the state that \<^verbatim>\<open>deserialize\<close> left.
\<close>

lemma handleMethodCall_resolve:
  assumes found: "getKeyringInstanceForType this (type req) = Some kr"
    and deser: "deserialize (kclass kr) (prevState req) (kstate kr) = (Ok (), s1)"
    and pargs: "processArgs env (args req) (method req) = Ok args'"
    and callable: "methods (kclass kr) (method req) = Some f"
    and returns: "f args' s1 = (Ok res0, s2)"
    and pres: "processKeyringResponse env res0 (method req) = Ok res"
    and ser: "serialize (kclass kr) s2 = (Ok newState, s3)"
  shows "handleMethodCall env this req =
     (Ok (), mutate this (type req) s3,
      [Deserialize (type req) (prevState req),
       Invoke (type req) (method req) args',
       Serialize (type req),
       CallBackground ''closeBackgroundPromise''
         [outcome (promiseId req) ''resolve''
            (JObj [(''newState'', newState), (''response'', res)])]])"
proof -
  let ?ty = "type req"
  have u: "updateKeyringData this ?ty (prevState req) =
      (Ok (), mutate this ?ty s1, [Deserialize ?ty (prevState req)])"
    using found deser by (rule updateKeyringData_found)
  have f1: "getKeyringInstanceForType (mutate this ?ty s1) ?ty = Some (kr\<lparr>kstate := s1\<rparr>)"
    using found by (rule getKeyringInstanceForType_mutate)
  have i: "invoke (mutate this ?ty s1) ?ty (method req) args' =
      (Ok res0, mutate this ?ty s2, [Invoke ?ty (method req) args'])"
    using invoke_found [OF f1, of "method req" f args' "Ok res0" s2] callable returns
    by (simp add: mutate_mutate)
  have f2: "getKeyringInstanceForType (mutate this ?ty s2) ?ty = Some (kr\<lparr>kstate := s2\<rparr>)"
    using found by (rule getKeyringInstanceForType_mutate)
  have g: "getUpdatedKeyringData (mutate this ?ty s2) ?ty =
      (Ok newState, mutate this ?ty s3, [Serialize ?ty])"
    using getUpdatedKeyringData_found [OF f2, of "Ok newState" s3] ser
    by (simp add: mutate_mutate)
  have t: "try_block env req args' (mutate this ?ty s1) =
      (Ok (), mutate this ?ty s3,
       [Invoke ?ty (method req) args', Serialize ?ty,
        CallBackground ''closeBackgroundPromise''
          [outcome (promiseId req) ''resolve''
             (JObj [(''newState'', newState), (''response'', res)])]])"
    by (simp add: try_block_def i pres g callBackgroundMethod_def)
  show ?thesis
    by (simp add: handleMethodCall_def u pargs t)
qed

lemma handleMethodCall_invoked:
  assumes found: "getKeyringInstanceForType this (type req) = Some kr"
    and deser: "deserialize (kclass kr) (prevState req) (kstate kr) = (Ok (), s1)"
    and pargs: "processArgs env (args req) (method req) = Ok args'"
    and callable: "methods (kclass kr) (method req) = Some f"
  shows "\<exists>r rest. handleMethodCall env this req =
     (r, mutate this (type req) (state_after_call env (kclass kr) (method req) (f args' s1)),
      Deserialize (type req) (prevState req) # Invoke (type req) (method req) args' # rest)"
proof -
  let ?ty = "type req"
  obtain r1 s2 where call: "f args' s1 = (r1, s2)" by (cases "f args' s1")
  have u: "updateKeyringData this ?ty (prevState req) =
      (Ok (), mutate this ?ty s1, [Deserialize ?ty (prevState req)])"
    using found deser by (rule updateKeyringData_found)
  have f1: "getKeyringInstanceForType (mutate this ?ty s1) ?ty = Some (kr\<lparr>kstate := s1\<rparr>)"
    using found by (rule getKeyringInstanceForType_mutate)
  have i: "invoke (mutate this ?ty s1) ?ty (method req) args' =
      (r1, mutate this ?ty s2, [Invoke ?ty (method req) args'])"
    using invoke_found [OF f1, of "method req" f args' r1 s2] callable call
    by (simp add: mutate_mutate)
  have f2: "getKeyringInstanceForType (mutate this ?ty s2) ?ty = Some (kr\<lparr>kstate := s2\<rparr>)"
    using found by (rule getKeyringInstanceForType_mutate)
  obtain r3 s3 where ser: "serialize (kclass kr) s2 = (r3, s3)"
    by (cases "serialize (kclass kr) s2")
  have g: "getUpdatedKeyringData (mutate this ?ty s2) ?ty =
      (r3, mutate this ?ty s3, [Serialize ?ty])"
    using getUpdatedKeyringData_found [OF f2, of r3 s3] ser
    by (simp add: mutate_mutate)
  have t: "\<exists>r rest. try_block env req args' (mutate this ?ty s1) =
      (r, mutate this ?ty (state_after_call env (kclass kr) (method req) (f args' s1)),
       Invoke ?ty (method req) args' # rest)"
    by (simp add: try_block_def i g call ser state_after_call_def
        split: completion.splits)
  then obtain r rest where t': "try_block env req args' (mutate this ?ty s1) =
      (r, mutate this ?ty (state_after_call env (kclass kr) (method req) (f args' s1)),
       Invoke ?ty (method req) args' # rest)" by blast
  show ?thesis
  proof (cases r)
    case (Ok u)
    then show ?thesis by (simp add: handleMethodCall_def u pargs t')
  next
    case (Throw e)
    obtain r4 this4 ev4 where c: "catch_block req (Some (kr\<lparr>kstate := s1\<rparr>)) e
       (mutate this ?ty (state_after_call env (kclass kr) (method req) (f args' s1))) = (r4, this4, ev4)"
      by (metis prod_cases3)
    from catch_block_this [OF c] c Throw show ?thesis
      by (simp add: handleMethodCall_def u pargs t' f1)
  qed
qed

subsection \<open>The method throws\<close>

text \<open>
  The \<^verbatim>\<open>catch\<close> block reports a reject outcome, when the description of the thrown value can be
  read.
\<close>

lemma handleMethodCall_reject:
  assumes found: "getKeyringInstanceForType this (type req) = Some kr"
    and deser: "deserialize (kclass kr) (prevState req) (kstate kr) = (Ok (), s1)"
    and pargs: "processArgs env (args req) (method req) = Ok args'"
    and callable: "methods (kclass kr) (method req) = Some f"
    and throws: "f args' s1 = (Throw e, s2)"
    and data: "reject_data e = Ok d"
  shows "handleMethodCall env this req =
     (Ok (), mutate this (type req) s2,
      [Deserialize (type req) (prevState req),
       Invoke (type req) (method req) args',
       CallBackground ''closeBackgroundPromise'' [outcome (promiseId req) ''reject'' d]])"
proof -
  let ?ty = "type req"
  have u: "updateKeyringData this ?ty (prevState req) =
      (Ok (), mutate this ?ty s1, [Deserialize ?ty (prevState req)])"
    using found deser by (rule updateKeyringData_found)
  have f1: "getKeyringInstanceForType (mutate this ?ty s1) ?ty = Some (kr\<lparr>kstate := s1\<rparr>)"
    using found by (rule getKeyringInstanceForType_mutate)
  have i: "invoke (mutate this ?ty s1) ?ty (method req) args' =
      (Throw e, mutate this ?ty s2, [Invoke ?ty (method req) args'])"
    using invoke_found [OF f1, of "method req" f args' "Throw e" s2] callable throws
    by (simp add: mutate_mutate)
  have t: "try_block env req args' (mutate this ?ty s1) =
      (Throw e, mutate this ?ty s2, [Invoke ?ty (method req) args'])"
    by (simp add: try_block_def i)
  show ?thesis
    by (simp add: handleMethodCall_def u pargs t f1 catch_block_def data callBackgroundMethod_def)
qed

lemma handleMethodCall_invocation_throws:
  assumes found: "getKeyringInstanceForType this (type req) = Some kr"
    and deser: "deserialize (kclass kr) (prevState req) (kstate kr) = (Ok (), s1)"
    and pargs: "processArgs env (args req) (method req) = Ok args'"
    and throws: "(methods (kclass kr) (method req) = None
                   \<and> e = TypeError ''keyring[method] is not a function'')
               \<or> (\<exists>f s2. methods (kclass kr) (method req) = Some f
                     \<and> f args' s1 = (Throw e, s2))"
  shows "\<exists>this2 ev2. outcomes ev2 = [] \<and>
     handleMethodCall env this req =
       (case catch_block req (Some (kr\<lparr>kstate := s1\<rparr>)) e this2 of
          (r, this3, ev3) \<Rightarrow>
            (r, this3, [Deserialize (type req) (prevState req)] @ ev2 @ ev3))"
proof -
  let ?ty = "type req"
  have u: "updateKeyringData this ?ty (prevState req) =
      (Ok (), mutate this ?ty s1, [Deserialize ?ty (prevState req)])"
    using found deser by (rule updateKeyringData_found)
  have f1: "getKeyringInstanceForType (mutate this ?ty s1) ?ty = Some (kr\<lparr>kstate := s1\<rparr>)"
    using found by (rule getKeyringInstanceForType_mutate)
  from throws have "\<exists>this2 ev2. outcomes ev2 = [] \<and>
      invoke (mutate this ?ty s1) ?ty (method req) args' = (Throw e, this2, ev2)"
  proof
    assume "methods (kclass kr) (method req) = None
        \<and> e = TypeError ''keyring[method] is not a function''"
    then show ?thesis
      using invoke_not_callable [OF f1, of "method req" args'] by simp
  next
    assume "\<exists>f s2. methods (kclass kr) (method req) = Some f \<and> f args' s1 = (Throw e, s2)"
    then obtain f s2 where "methods (kclass kr) (method req) = Some f"
      and "f args' s1 = (Throw e, s2)" by blast
    then show ?thesis
      using invoke_found [OF f1, of "method req" f args' "Throw e" s2] by simp
  qed
  then obtain this2 ev2 where o: "outcomes ev2 = []"
    and i: "invoke (mutate this ?ty s1) ?ty (method req) args' = (Throw e, this2, ev2)"
    by blast
  have t: "try_block env req args' (mutate this ?ty s1) = (Throw e, this2, ev2)"
    by (simp add: try_block_def i)
  have "handleMethodCall env this req =
       (case catch_block req (Some (kr\<lparr>kstate := s1\<rparr>)) e this2 of
          (r, this3, ev3) \<Rightarrow>
            (r, this3, [Deserialize (type req) (prevState req)] @ ev2 @ ev3))"
    by (simp add: handleMethodCall_def u pargs t f1)
  with o show ?thesis by blast
qed

subsection \<open>Failures outside the \<^verbatim>\<open>try\<close> block\<close>

text \<open>
  The promise of \<open>handleMethodCall\<close> rejects, with no outcome emitted, when no instance has
  the type, when \<^verbatim>\<open>deserialize\<close> throws, when the argument transformation throws, and when the
  \<^verbatim>\<open>catch\<close> block throws in turn: on \<^verbatim>\<open>e.message\<close> when the method threw \<^verbatim>\<open>undefined\<close> or
  \<^verbatim>\<open>null\<close>, on \<^verbatim>\<open>String(e)\<close> when the method threw an object with neither message nor cause
  that cannot be converted to a string.
\<close>

lemma handleMethodCall_unsupported_type:
  assumes "getKeyringInstanceForType this (type req) = None"
  shows "handleMethodCall env this req =
    (Throw (TypeError ''Cannot read properties of undefined''), this, [])"
  using assms by (simp add: handleMethodCall_def updateKeyringData_def)

lemma handleMethodCall_deserialize_throws:
  assumes "getKeyringInstanceForType this (type req) = Some kr"
    and "deserialize (kclass kr) (prevState req) (kstate kr) = (Throw e, s1)"
  shows "handleMethodCall env this req =
    (Throw e, mutate this (type req) s1, [Deserialize (type req) (prevState req)])"
  using assms by (simp add: handleMethodCall_def updateKeyringData_def)

lemma handleMethodCall_processArgs_throws:
  assumes "getKeyringInstanceForType this (type req) = Some kr"
    and "deserialize (kclass kr) (prevState req) (kstate kr) = (Ok (), s1)"
    and "processArgs env (args req) (method req) = Throw e"
  shows "handleMethodCall env this req =
    (Throw e, mutate this (type req) s1, [Deserialize (type req) (prevState req)])"
  using assms by (simp add: handleMethodCall_def updateKeyringData_def)

lemma reject_data_nullish: "e = Undefined \<or> e = Null \<Longrightarrow> \<exists>t. reject_data e = Throw t"
  by (elim disjE) (simp_all add: reject_data_def)

lemma reject_data_unprintable:
  assumes "get_prop e ''message'' = Ok m" and "\<not> truthy m"
    and "get_prop e ''cause'' = Ok c" and "\<not> truthy c"
    and "ToString e = Throw t"
  shows "reject_data e = Throw t"
  using assms by (simp add: reject_data_def)

lemma handleMethodCall_catch_throws:
  assumes found: "getKeyringInstanceForType this (type req) = Some kr"
    and deser: "deserialize (kclass kr) (prevState req) (kstate kr) = (Ok (), s1)"
    and pargs: "processArgs env (args req) (method req) = Ok args'"
    and callable: "methods (kclass kr) (method req) = Some f"
    and throws: "f args' s1 = (Throw e, s2)"
    and unreadable: "reject_data e = Throw t"
  shows "handleMethodCall env this req =
    (Throw t, mutate this (type req) s2,
     [Deserialize (type req) (prevState req), Invoke (type req) (method req) args'])"
proof -
  let ?ty = "type req"
  have u: "updateKeyringData this ?ty (prevState req) =
      (Ok (), mutate this ?ty s1, [Deserialize ?ty (prevState req)])"
    using found deser by (rule updateKeyringData_found)
  have f1: "getKeyringInstanceForType (mutate this ?ty s1) ?ty = Some (kr\<lparr>kstate := s1\<rparr>)"
    using found by (rule getKeyringInstanceForType_mutate)
  have i: "invoke (mutate this ?ty s1) ?ty (method req) args' =
      (Throw e, mutate this ?ty s2, [Invoke ?ty (method req) args'])"
    using invoke_found [OF f1, of "method req" f args' "Throw e" s2] callable throws
    by (simp add: mutate_mutate)
  have t: "try_block env req args' (mutate this ?ty s1) =
      (Throw e, mutate this ?ty s2, [Invoke ?ty (method req) args'])"
    by (simp add: try_block_def i)
  show ?thesis
    by (simp add: handleMethodCall_def u pargs t f1 catch_block_def unreadable)
qed

text \<open>
  When no method is invoked, the instance is left in the state that \<^verbatim>\<open>deserialize\<close> left.
\<close>

lemma handleMethodCall_not_invoked:
  assumes found: "getKeyringInstanceForType this (type req) = Some kr"
    and deser: "deserialize (kclass kr) (prevState req) (kstate kr) = (u, s1)"
    and call: "handleMethodCall env this req = (r, this', evs)"
    and none: "\<forall>t m a. Invoke t m a \<notin> set evs"
  shows "this' = mutate this (type req) s1"
proof (cases u)
  case (Throw e)
  with deser have "deserialize (kclass kr) (prevState req) (kstate kr) = (Throw e, s1)"
    by simp
  from handleMethodCall_deserialize_throws [OF found this] call
  show ?thesis by simp
next
  case (Ok x)
  with deser have deser': "deserialize (kclass kr) (prevState req) (kstate kr) = (Ok (), s1)"
    by simp
  show ?thesis
  proof (cases "processArgs env (args req) (method req)")
    case (Throw e)
    from handleMethodCall_processArgs_throws [OF found deser' Throw] call
    show ?thesis by simp
  next
    case pargs: (Ok args')
    show ?thesis
    proof (cases "methods (kclass kr) (method req)")
      case (Some f)
      from handleMethodCall_invoked [OF found deser' pargs Some] call
      obtain rest where "evs = Deserialize (type req) (prevState req)
          # Invoke (type req) (method req) args' # rest"
        by auto
      then have "Invoke (type req) (method req) args' \<in> set evs" by simp
      with none show ?thesis by blast
    next
      case None
      let ?ty = "type req"
      have upd: "updateKeyringData this ?ty (prevState req) =
          (Ok (), mutate this ?ty s1, [Deserialize ?ty (prevState req)])"
        using found deser' by (rule updateKeyringData_found)
      have f1: "getKeyringInstanceForType (mutate this ?ty s1) ?ty = Some (kr\<lparr>kstate := s1\<rparr>)"
        using found by (rule getKeyringInstanceForType_mutate)
      have t: "try_block env req args' (mutate this ?ty s1) =
          (Throw (TypeError ''keyring[method] is not a function''), mutate this ?ty s1, [])"
        using invoke_not_callable [OF f1, of "method req" args'] None
        by (simp add: try_block_def)
      obtain r3 this3 ev3 where c: "catch_block req (Some (kr\<lparr>kstate := s1\<rparr>))
          (TypeError ''keyring[method] is not a function'') (mutate this ?ty s1) = (r3, this3, ev3)"
        by (metis prod_cases3)
      from catch_block_this [OF c] c call show ?thesis
        by (simp add: handleMethodCall_def upd pargs t f1)
    qed
  qed
qed

subsection \<open>The instance table keeps its classes\<close>

lemma mutate_classes:
  "keyrings (mutate this ty s) = keyrings this
   \<and> map kclass (keyringInstances (mutate this ty s)) = map kclass (keyringInstances this)"
  by (simp add: mutate_def map_kclass_store)

lemma same_classes_refl: "same_classes a a"
  by (simp add: same_classes_def)

lemma same_classes_mutate: "same_classes (mutate this ty s) this"
  by (simp add: same_classes_def mutate_classes)

lemma same_classes_trans: "same_classes a b \<Longrightarrow> same_classes b c \<Longrightarrow> same_classes a c"
  by (simp add: same_classes_def)

lemma updateKeyringData_classes:
  "updateKeyringData this ty d = (r, this', ev) \<Longrightarrow> same_classes this' this"
  by (auto simp: updateKeyringData_def same_classes_refl same_classes_mutate
      split: option.splits prod.splits)

lemma invoke_classes:
  "invoke this ty m a = (r, this', ev) \<Longrightarrow> same_classes this' this"
  by (auto simp: invoke_def same_classes_refl same_classes_mutate
      split: option.splits prod.splits)

lemma getUpdatedKeyringData_classes:
  "getUpdatedKeyringData this ty = (r, this', ev) \<Longrightarrow> same_classes this' this"
  by (auto simp: getUpdatedKeyringData_def same_classes_refl same_classes_mutate
      split: option.splits prod.splits)

lemma try_block_classes:
  "try_block env req a this = (r, this', ev) \<Longrightarrow> same_classes this' this"
  by (auto simp: try_block_def
      dest!: invoke_classes getUpdatedKeyringData_classes
      intro: same_classes_trans
      split: prod.splits completion.splits)

lemma handleMethodCall_classes:
  assumes "handleMethodCall env this req = (r, this', evs)"
  shows "same_classes this' this"
  using assms
  by (auto simp: handleMethodCall_def
      dest!: updateKeyringData_classes try_block_classes catch_block_this
      intro: same_classes_trans
      split: prod.splits completion.splits)

lemma new_controller_instances:
  "map kclass (keyringInstances (new_ClientKeyringController env)) = HARDWARE_KEYRINGS env"
  by (simp add: new_ClientKeyringController_def comp_def)

section \<open>Lemmas on the module\<close>

lemma initialize_Some:
  "clientKeyringController w = Some c \<Longrightarrow> initializeClientKeyringController env w = w"
  by (simp add: initializeClientKeyringController_def)

lemma initialize_None:
  "clientKeyringController w = None \<Longrightarrow>
   initializeClientKeyringController env w =
     w\<lparr>clientKeyringController := Some (new_ClientKeyringController env)\<rparr>"
  by (simp add: initializeClientKeyringController_def)

lemma initialize_focus:
  "documentHasFocus (initializeClientKeyringController env w) = documentHasFocus w"
  by (simp add: initializeClientKeyringController_def split: option.splits)

lemma initialize_effects:
  "effects (initializeClientKeyringController env w) = effects w"
  by (simp add: initializeClientKeyringController_def split: option.splits)

lemma initialize_defined:
  "clientKeyringController (initializeClientKeyringController env w) \<noteq> None"
  by (simp add: initializeClientKeyringController_def split: option.splits)

lemma handleHardwareCall_defined:
  "clientKeyringController (snd (handleHardwareCall env params w)) \<noteq> None"
  using initialize_defined [of env w]
  by (auto simp: handleHardwareCall_def Let_def split: option.splits prod.splits)

section \<open>The example environment, evaluated\<close>

lemmas example_defs =
  example_env_def example_ledger_def example_trezor_def example_request_def
  new_ClientKeyringController_def getKeyringInstanceForType_def
  ledger_signTransaction_def ledger_getAccounts_def

lemma example_class_fields:
  "ktype example_ledger = ''ledger''" "ktype example_trezor = ''trezor''"
  "construct example_ledger = JObj []" "construct example_trezor = JObj []"
  by (simp_all add: example_ledger_def example_trezor_def)

lemma example_mutate_ledger:
  "mutate (new_ClientKeyringController example_env) ''ledger'' s =
     \<lparr>keyrings = [example_trezor, example_ledger],
      keyringInstances =
        [\<lparr>kclass = example_trezor, kstate = JObj []\<rparr>,
         \<lparr>kclass = example_ledger, kstate = s\<rparr>]\<rparr>"
  by (simp add: mutate_def new_ClientKeyringController_def example_env_def example_class_fields)

lemma example_found_ledger:
  "getKeyringInstanceForType (new_ClientKeyringController example_env) ''ledger''
     = Some \<lparr>kclass = example_ledger, kstate = JObj []\<rparr>"
  by (simp add: example_defs)

lemma example_found_ledger_request:
  "getKeyringInstanceForType (new_ClientKeyringController example_env)
     (type (example_request ''ledger'' m a st))
     = Some \<lparr>kclass = example_ledger, kstate = JObj []\<rparr>"
  by (simp add: example_defs)


lemma example_getAccounts:
  "handleMethodCall example_env (new_ClientKeyringController example_env)
     (example_request ''ledger'' ''getAccounts'' [] (JObj [(''accounts'', JStr ''0xabc'')]))
   = (Ok (),
      mutate (new_ClientKeyringController example_env) ''ledger''
        (JObj [(''accounts'', JStr ''0xabc'')]),
      [Deserialize ''ledger'' (JObj [(''accounts'', JStr ''0xabc'')]),
       Invoke ''ledger'' ''getAccounts'' [],
       Serialize ''ledger'',
       CallBackground ''closeBackgroundPromise''
         [outcome (JStr ''p1'') ''resolve''
            (JObj [(''newState'', JObj [(''accounts'', JStr ''0xabc'')]),
                   (''response'', JStr ''0xabc'')])]])"
  using handleMethodCall_resolve [of "new_ClientKeyringController example_env"
      "example_request ''ledger'' ''getAccounts'' [] (JObj [(''accounts'', JStr ''0xabc'')])"
      "\<lparr>kclass = example_ledger, kstate = JObj []\<rparr>"
      "JObj [(''accounts'', JStr ''0xabc'')]" example_env "[]" ledger_getAccounts
      "JStr ''0xabc''" "JObj [(''accounts'', JStr ''0xabc'')]" "JStr ''0xabc''"
      "JObj [(''accounts'', JStr ''0xabc'')]" "JObj [(''accounts'', JStr ''0xabc'')]"]
  by (simp add: example_defs processArgs_def processKeyringResponse_def)

lemma example_sign_rejected:
  "handleMethodCall example_env (new_ClientKeyringController example_env)
     (example_request ''ledger'' ''signTransaction'' [JStr ''m/44'', JStr ''0xf8''] (JObj []))
   = (Ok (),
      mutate (new_ClientKeyringController example_env) ''ledger'' (JObj []),
      [Deserialize ''ledger'' (JObj []),
       Invoke ''ledger'' ''signTransaction'' [JStr ''m/44'', JTx [248]],
       CallBackground ''closeBackgroundPromise''
         [outcome (JStr ''p1'') ''reject'' (JStr ''User rejected'')]])"
proof -
  let ?req = "example_request ''ledger'' ''signTransaction'' [JStr ''m/44'', JStr ''0xf8''] (JObj [])"
  let ?kr = "\<lparr>kclass = example_ledger, kstate = JObj []\<rparr>"
  have found: "getKeyringInstanceForType (new_ClientKeyringController example_env) (type ?req)
      = Some ?kr"
    by (rule example_found_ledger_request)
  have deser: "deserialize (kclass ?kr) (prevState ?req) (kstate ?kr) = (Ok (), JObj [])"
    by (simp add: example_defs)
  have pargs: "processArgs example_env (args ?req) (method ?req) = Ok [JStr ''m/44'', JTx [248]]"
    by (simp add: processArgs_def example_defs index_def)
  have callable: "methods (kclass ?kr) (method ?req) = Some ledger_signTransaction"
    by (simp add: example_ledger_def example_request_def)
  have throws: "ledger_signTransaction [JStr ''m/44'', JTx [248]] (JObj [])
      = (Throw (JError ''Error'' ''User rejected'' Undefined), JObj [])"
    by (simp add: ledger_signTransaction_def)
  have data: "reject_data (JError ''Error'' ''User rejected'' Undefined) = Ok (JStr ''User rejected'')"
    by (simp add: reject_data_def)
  from handleMethodCall_reject [OF found deser pargs callable throws data]
  show ?thesis by (simp add: example_request_def)
qed

section \<open>The claims\<close>

subsection \<open>One outcome per call\<close>

text \<open>
  Claim C1 says that every call request handled by \<open>handleMethodCall\<close> emits exactly one
  outcome message. \<open>handleMethodCall_outcomes\<close> above shows how far the code goes: a call
  that completes emits exactly one outcome with the request's \<open>promiseId\<close>, never two, and a
  call whose promise rejects emits none. The promise does reject: the state overwrite and the
  argument transformation run before the \<^verbatim>\<open>try\<close> block. For a request of a type that no keyring
  has, \<open>updateKeyringData\<close> throws a TypeError, and no outcome is emitted.
\<close>

theorem C1_unsupported_type_no_outcome:
  "handleMethodCall example_env (new_ClientKeyringController example_env)
     (example_request ''unknown'' ''getAccounts'' [] (JObj []))
   = (Throw (TypeError ''Cannot read properties of undefined''),
      new_ClientKeyringController example_env, [])
   \<and> outcomes (snd (snd (handleMethodCall example_env (new_ClientKeyringController example_env)
         (example_request ''unknown'' ''getAccounts'' [] (JObj []))))) = []"
proof -
  have "getKeyringInstanceForType (new_ClientKeyringController example_env)
      (type (example_request ''unknown'' ''getAccounts'' [] (JObj []))) = None"
    by (simp add: example_defs)
  then show ?thesis
    by (simp add: handleMethodCall_unsupported_type)
qed

subsection \<open>Failures at the relay boundary\<close>

text \<open>
  Claim C2 says that every failure while handling a call becomes a reject outcome and that
  no exception escapes to the hosting context. For a request of a type that no keyring has,
  dispatched by \<open>handleHardwareCall\<close> in a focused document, the promise of
  \<open>handleMethodCall\<close> rejects with a TypeError that nothing handles, and no call at all is
  made on the background. The lemmas \<open>handleMethodCall_deserialize_throws\<close>,
  \<open>handleMethodCall_processArgs_throws\<close> and \<open>handleMethodCall_catch_throws\<close> above give the
  other escapes.
\<close>

theorem C2_unsupported_type_escapes:
  "handleHardwareCall example_env
     (example_request ''unknown'' ''getAccounts'' [] (JObj [])) (example_world True)
   = (Throw (TypeError ''Cannot read properties of undefined''),
      \<lparr>clientKeyringController = Some (new_ClientKeyringController example_env),
       documentHasFocus = True, effects = []\<rparr>)"
proof -
  have "getKeyringInstanceForType (new_ClientKeyringController example_env)
      (type (example_request ''unknown'' ''getAccounts'' [] (JObj []))) = None"
    by (simp add: example_defs)
  then show ?thesis
    by (simp add: handleHardwareCall_def Let_def initializeClientKeyringController_def
        example_world_def handleMethodCall_unsupported_type)
qed

subsection \<open>State overwrite before execution\<close>

text \<open>
  Claim C3. For a supported type, handling a call first calls \<^verbatim>\<open>deserialize\<close> with
  \<open>prevState\<close> on the instance of that type: it is the first call made and the only
  \<^verbatim>\<open>deserialize\<close>, and every invocation of a keyring method comes after it, with the
  transformed arguments. Whatever state the instance had before, when no method is invoked
  the instance is left in the state \<open>s1\<close> that \<^verbatim>\<open>deserialize\<close> left. When the overwrite and the
  argument transformation succeed and the method is callable, the invocation is the second
  call and the method runs on \<open>s1\<close>: the instance ends in the state that the call
  \<open>f args' s1\<close> and the read-back leave, a returning call resolves with the value that
  \<open>f args' s1\<close> returned, and a throwing call rejects with what \<open>f args' s1\<close> threw.
\<close>

theorem C3_overwrite_precedes_invocation:
  assumes found: "getKeyringInstanceForType this (type req) = Some kr"
    and call: "handleMethodCall env this req = (r, this', evs)"
  shows "(\<exists>rest. evs = Deserialize (type req) (prevState req) # rest
            \<and> (\<forall>t d. Deserialize t d \<notin> set rest)
            \<and> (\<forall>t m a. Invoke t m a \<in> set evs \<longrightarrow>
                  Invoke t m a \<in> set rest \<and> t = type req \<and> m = method req
                  \<and> processArgs env (args req) (method req) = Ok a))
       \<and> (\<forall>u s1.
             deserialize (kclass kr) (prevState req) (kstate kr) = (u, s1)
             \<and> (\<forall>t m a. Invoke t m a \<notin> set evs) \<longrightarrow>
             getKeyringInstanceForType this' (type req) = Some (kr\<lparr>kstate := s1\<rparr>))
       \<and> (\<forall>s1 args' f.
             deserialize (kclass kr) (prevState req) (kstate kr) = (Ok (), s1)
             \<and> processArgs env (args req) (method req) = Ok args'
             \<and> methods (kclass kr) (method req) = Some f \<longrightarrow>
             (\<exists>rest. evs = Deserialize (type req) (prevState req)
                        # Invoke (type req) (method req) args' # rest)
             \<and> getKeyringInstanceForType this' (type req)
                 = Some (kr\<lparr>kstate :=
                      state_after_call env (kclass kr) (method req) (f args' s1)\<rparr>)
             \<and> (\<forall>res0 s2 res newState s3.
                   f args' s1 = (Ok res0, s2)
                   \<and> processKeyringResponse env res0 (method req) = Ok res
                   \<and> serialize (kclass kr) s2 = (Ok newState, s3) \<longrightarrow>
                   r = Ok ()
                   \<and> outcomes evs =
                       [outcome (promiseId req) ''resolve''
                          (JObj [(''newState'', newState), (''response'', res)])])
             \<and> (\<forall>e s2 d.
                   f args' s1 = (Throw e, s2) \<and> reject_data e = Ok d \<longrightarrow>
                   r = Ok () \<and> outcomes evs = [outcome (promiseId req) ''reject'' d]))"
proof -
  from handleMethodCall_Deserialize_once [OF found call]
  obtain rest where rest: "evs = Deserialize (type req) (prevState req) # rest"
    and once: "\<forall>t d. Deserialize t d \<notin> set rest" by blast
  have inv: "\<forall>t m a. Invoke t m a \<in> set evs \<longrightarrow>
      Invoke t m a \<in> set rest \<and> t = type req \<and> m = method req
      \<and> processArgs env (args req) (method req) = Ok a"
    using handleMethodCall_Invoke [OF call] rest by auto
  have first: "\<exists>rest. evs = Deserialize (type req) (prevState req) # rest
            \<and> (\<forall>t d. Deserialize t d \<notin> set rest)
            \<and> (\<forall>t m a. Invoke t m a \<in> set evs \<longrightarrow>
                  Invoke t m a \<in> set rest \<and> t = type req \<and> m = method req
                  \<and> processArgs env (args req) (method req) = Ok a)"
    using rest once inv by blast
  have idle: "\<forall>u s1.
      deserialize (kclass kr) (prevState req) (kstate kr) = (u, s1)
      \<and> (\<forall>t m a. Invoke t m a \<notin> set evs) \<longrightarrow>
      getKeyringInstanceForType this' (type req) = Some (kr\<lparr>kstate := s1\<rparr>)"
  proof (intro allI impI, elim conjE)
    fix u s1
    assume deser: "deserialize (kclass kr) (prevState req) (kstate kr) = (u, s1)"
      and none: "\<forall>t m a. Invoke t m a \<notin> set evs"
    from handleMethodCall_not_invoked [OF found deser call none]
    show "getKeyringInstanceForType this' (type req) = Some (kr\<lparr>kstate := s1\<rparr>)"
      using found by (simp add: getKeyringInstanceForType_mutate)
  qed
  have run: "\<forall>s1 args' f.
      deserialize (kclass kr) (prevState req) (kstate kr) = (Ok (), s1)
      \<and> processArgs env (args req) (method req) = Ok args'
      \<and> methods (kclass kr) (method req) = Some f \<longrightarrow>
      (\<exists>rest. evs = Deserialize (type req) (prevState req)
                 # Invoke (type req) (method req) args' # rest)
      \<and> getKeyringInstanceForType this' (type req)
          = Some (kr\<lparr>kstate :=
               state_after_call env (kclass kr) (method req) (f args' s1)\<rparr>)
      \<and> (\<forall>res0 s2 res newState s3.
            f args' s1 = (Ok res0, s2)
            \<and> processKeyringResponse env res0 (method req) = Ok res
            \<and> serialize (kclass kr) s2 = (Ok newState, s3) \<longrightarrow>
            r = Ok ()
            \<and> outcomes evs =
                [outcome (promiseId req) ''resolve''
                   (JObj [(''newState'', newState), (''response'', res)])])
      \<and> (\<forall>e s2 d.
            f args' s1 = (Throw e, s2) \<and> reject_data e = Ok d \<longrightarrow>
            r = Ok () \<and> outcomes evs = [outcome (promiseId req) ''reject'' d])"
  proof (intro allI impI, elim conjE)
    fix s1 args' f
    assume deser: "deserialize (kclass kr) (prevState req) (kstate kr) = (Ok (), s1)"
      and pargs: "processArgs env (args req) (method req) = Ok args'"
      and callable: "methods (kclass kr) (method req) = Some f"
    from handleMethodCall_invoked [OF found deser pargs callable] call
    have ev: "\<exists>rest. evs = Deserialize (type req) (prevState req)
                 # Invoke (type req) (method req) args' # rest"
      and st: "this' = mutate this (type req)
           (state_after_call env (kclass kr) (method req) (f args' s1))"
      by auto
    from st found
    have look: "getKeyringInstanceForType this' (type req)
          = Some (kr\<lparr>kstate :=
               state_after_call env (kclass kr) (method req) (f args' s1)\<rparr>)"
      by (simp add: getKeyringInstanceForType_mutate)
    have res: "\<forall>res0 s2 res newState s3.
            f args' s1 = (Ok res0, s2)
            \<and> processKeyringResponse env res0 (method req) = Ok res
            \<and> serialize (kclass kr) s2 = (Ok newState, s3) \<longrightarrow>
            r = Ok ()
            \<and> outcomes evs =
                [outcome (promiseId req) ''resolve''
                   (JObj [(''newState'', newState), (''response'', res)])]"
    proof (intro allI impI, elim conjE)
      fix res0 s2 res newState s3
      assume "f args' s1 = (Ok res0, s2)"
        and "processKeyringResponse env res0 (method req) = Ok res"
        and "serialize (kclass kr) s2 = (Ok newState, s3)"
      from handleMethodCall_resolve [OF found deser pargs callable this] call
      show "r = Ok ()
            \<and> outcomes evs =
                [outcome (promiseId req) ''resolve''
                   (JObj [(''newState'', newState), (''response'', res)])]"
        by auto
    qed
    have rej: "\<forall>e s2 d.
            f args' s1 = (Throw e, s2) \<and> reject_data e = Ok d \<longrightarrow>
            r = Ok () \<and> outcomes evs = [outcome (promiseId req) ''reject'' d]"
    proof (intro allI impI, elim conjE)
      fix e s2 d
      assume "f args' s1 = (Throw e, s2)" and "reject_data e = Ok d"
      from handleMethodCall_reject [OF found deser pargs callable this] call
      show "r = Ok () \<and> outcomes evs = [outcome (promiseId req) ''reject'' d]"
        by auto
    qed
    from ev look res rej
    show "(\<exists>rest. evs = Deserialize (type req) (prevState req)
                 # Invoke (type req) (method req) args' # rest)
      \<and> getKeyringInstanceForType this' (type req)
          = Some (kr\<lparr>kstate :=
               state_after_call env (kclass kr) (method req) (f args' s1)\<rparr>)
      \<and> (\<forall>res0 s2 res newState s3.
            f args' s1 = (Ok res0, s2)
            \<and> processKeyringResponse env res0 (method req) = Ok res
            \<and> serialize (kclass kr) s2 = (Ok newState, s3) \<longrightarrow>
            r = Ok ()
            \<and> outcomes evs =
                [outcome (promiseId req) ''resolve''
                   (JObj [(''newState'', newState), (''response'', res)])])
      \<and> (\<forall>e s2 d.
            f args' s1 = (Throw e, s2) \<and> reject_data e = Ok d \<longrightarrow>
            r = Ok () \<and> outcomes evs = [outcome (promiseId req) ''reject'' d])"
      by blast
  qed
  from first idle run show ?thesis by blast
qed

text \<open>
  The example's \<open>ledger\<close> instance starts with the empty state, on which \<^verbatim>\<open>getAccounts\<close>
  would return \<^verbatim>\<open>undefined\<close>. The call returns the accounts of \<open>prevState\<close> and leaves the
  instance in that state.
\<close>

theorem C3_overwrite_precedes_invocation_witness:
  "getKeyringInstanceForType (new_ClientKeyringController example_env) ''ledger''
     = Some \<lparr>kclass = example_ledger, kstate = JObj []\<rparr>
   \<and> handleMethodCall example_env (new_ClientKeyringController example_env)
       (example_request ''ledger'' ''getAccounts'' [] (JObj [(''accounts'', JStr ''0xabc'')]))
     = (Ok (),
        \<lparr>keyrings = [example_trezor, example_ledger],
         keyringInstances =
           [\<lparr>kclass = example_trezor, kstate = JObj []\<rparr>,
            \<lparr>kclass = example_ledger, kstate = JObj [(''accounts'', JStr ''0xabc'')]\<rparr>]\<rparr>,
        [Deserialize ''ledger'' (JObj [(''accounts'', JStr ''0xabc'')]),
         Invoke ''ledger'' ''getAccounts'' [],
         Serialize ''ledger'',
         CallBackground ''closeBackgroundPromise''
           [JObj [(''promiseId'', JStr ''p1''), (''result'', JStr ''resolve''),
                  (''data'', JObj [(''newState'', JObj [(''accounts'', JStr ''0xabc'')]),
                                   (''response'', JStr ''0xabc'')])]]])
   \<and> getKeyringInstanceForType
        (fst (snd (handleMethodCall example_env (new_ClientKeyringController example_env)
           (example_request ''ledger'' ''getAccounts'' []
              (JObj [(''accounts'', JStr ''0xabc'')])))))
        ''ledger''
     = Some \<lparr>kclass = example_ledger, kstate = JObj [(''accounts'', JStr ''0xabc'')]\<rparr>"
proof -
  let ?S = "JObj [(''accounts'', JStr ''0xabc'')]"
  let ?req = "example_request ''ledger'' ''getAccounts'' [] ?S"
  let ?kr = "\<lparr>kclass = example_ledger, kstate = JObj []\<rparr>"
  let ?ctl = "new_ClientKeyringController example_env"
  have found: "getKeyringInstanceForType ?ctl (type ?req) = Some ?kr"
    by (rule example_found_ledger_request)
  obtain r this' evs where call: "handleMethodCall example_env ?ctl ?req = (r, this', evs)"
    by (metis prod_cases3)
  have deser: "deserialize (kclass ?kr) (prevState ?req) (kstate ?kr) = (Ok (), ?S)"
    by (simp add: example_defs)
  have pargs: "processArgs example_env (args ?req) (method ?req) = Ok []"
    by (simp add: processArgs_def example_request_def)
  have callable: "methods (kclass ?kr) (method ?req) = Some ledger_getAccounts"
    by (simp add: example_ledger_def example_request_def)
  have returns: "ledger_getAccounts [] ?S = (Ok (JStr ''0xabc''), ?S)"
    by (simp add: ledger_getAccounts_def)
  have pres: "processKeyringResponse example_env (JStr ''0xabc'') ''getAccounts'' = Ok (JStr ''0xabc'')"
    by (simp add: processKeyringResponse_def)
  have ser: "serialize example_ledger ?S = (Ok ?S, ?S)"
    by (simp add: example_ledger_def)
  have after: "state_after_call example_env example_ledger ''getAccounts''
      (ledger_getAccounts [] ?S) = ?S"
    by (simp add: state_after_call_def returns pres ser)
  note c3 = C3_overwrite_precedes_invocation [OF found call]
  from c3 have run: "\<forall>s1 args' f.
      deserialize (kclass ?kr) (prevState ?req) (kstate ?kr) = (Ok (), s1)
      \<and> processArgs example_env (args ?req) (method ?req) = Ok args'
      \<and> methods (kclass ?kr) (method ?req) = Some f \<longrightarrow>
      getKeyringInstanceForType this' (type ?req)
          = Some (?kr\<lparr>kstate :=
               state_after_call example_env (kclass ?kr) (method ?req) (f args' s1)\<rparr>)"
    by blast
  from run deser pargs callable
  have "getKeyringInstanceForType this' (type ?req)
      = Some (?kr\<lparr>kstate :=
           state_after_call example_env (kclass ?kr) (method ?req) (ledger_getAccounts [] ?S)\<rparr>)"
    by blast
  then have kept: "getKeyringInstanceForType this' ''ledger''
      = Some \<lparr>kclass = example_ledger, kstate = ?S\<rparr>"
    by (simp add: after example_request_def)
  have whole: "handleMethodCall example_env ?ctl ?req
     = (Ok (),
        \<lparr>keyrings = [example_trezor, example_ledger],
         keyringInstances =
           [\<lparr>kclass = example_trezor, kstate = JObj []\<rparr>,
            \<lparr>kclass = example_ledger, kstate = ?S\<rparr>]\<rparr>,
        [Deserialize ''ledger'' ?S,
         Invoke ''ledger'' ''getAccounts'' [],
         Serialize ''ledger'',
         CallBackground ''closeBackgroundPromise''
           [JObj [(''promiseId'', JStr ''p1''), (''result'', JStr ''resolve''),
                  (''data'', JObj [(''newState'', ?S), (''response'', JStr ''0xabc'')])]]])"
    by (simp add: example_getAccounts example_mutate_ledger outcome_def)
  from kept call have "getKeyringInstanceForType
        (fst (snd (handleMethodCall example_env ?ctl ?req))) ''ledger''
     = Some \<lparr>kclass = example_ledger, kstate = ?S\<rparr>"
    by simp
  with example_found_ledger whole show ?thesis by simp
qed

subsection \<open>Transactions through the relay\<close>

text \<open>
  Claim C4. For a \<^verbatim>\<open>signTransaction\<close> request, the keyring method is invoked with the second
  argument replaced by the transaction object decoded from it (first argument and the
  arguments from the third on unchanged), after the state overwrite. When the method returns
  a signed transaction object and the state is read back, the one outcome is a resolve
  carrying the request's \<open>promiseId\<close>, the new state, and as response the hex string of the
  signed transaction's serialization.
\<close>

theorem C4_signTransaction_round_trip:
  assumes sign: "method req = ''signTransaction''"
    and found: "getKeyringInstanceForType this (type req) = Some kr"
    and deser: "deserialize (kclass kr) (prevState req) (kstate kr) = (Ok (), s1)"
    and decode: "buildUnserializedTxFromHex env (index (args req) 1) = Ok tx"
    and callable: "methods (kclass kr) ''signTransaction'' = Some f"
    and returns: "f (index (args req) 0 # tx # drop 2 (args req)) s1 = (Ok (JTx bytes), s2)"
    and ser: "serialize (kclass kr) s2 = (Ok newState, s3)"
  shows "handleMethodCall env this req =
     (Ok (), mutate this (type req) s3,
      [Deserialize (type req) (prevState req),
       Invoke (type req) ''signTransaction'' (index (args req) 0 # tx # drop 2 (args req)),
       Serialize (type req),
       CallBackground ''closeBackgroundPromise''
         [outcome (promiseId req) ''resolve''
            (JObj [(''newState'', newState),
                   (''response'', JStr (bufferToHex env bytes))])]])"
proof -
  have pargs: "processArgs env (args req) (method req)
      = Ok (index (args req) 0 # tx # drop 2 (args req))"
    using sign decode by (simp add: processArgs_def)
  have pres: "processKeyringResponse env (JTx bytes) (method req)
      = Ok (JStr (bufferToHex env bytes))"
    using sign by (simp add: processKeyringResponse_def)
  have callable': "methods (kclass kr) (method req) = Some f"
    using callable sign by simp
  from handleMethodCall_resolve [OF found deser pargs callable' returns pres ser] sign
  show ?thesis by simp
qed

theorem C4_signTransaction_round_trip_witness:
  "handleMethodCall example_env (new_ClientKeyringController example_env)
     (example_request ''ledger'' ''signTransaction'' [JStr ''m/44'', JStr ''0xf8'']
        (JObj [(''approve'', JBool True)]))
   = (Ok (),
      mutate (new_ClientKeyringController example_env) ''ledger''
        (JObj [(''approve'', JBool True)]),
      [Deserialize ''ledger'' (JObj [(''approve'', JBool True)]),
       Invoke ''ledger'' ''signTransaction'' [JStr ''m/44'', JTx [248]],
       Serialize ''ledger'',
       CallBackground ''closeBackgroundPromise''
         [JObj [(''promiseId'', JStr ''p1''), (''result'', JStr ''resolve''),
                (''data'', JObj [(''newState'', JObj [(''approve'', JBool True)]),
                                 (''response'', JStr ''0xf81b'')])]]])"
proof -
  let ?S = "JObj [(''approve'', JBool True)]"
  let ?req = "example_request ''ledger'' ''signTransaction'' [JStr ''m/44'', JStr ''0xf8''] ?S"
  let ?kr = "\<lparr>kclass = example_ledger, kstate = JObj []\<rparr>"
  have sign: "method ?req = ''signTransaction''"
    by (simp add: example_request_def)
  have found: "getKeyringInstanceForType (new_ClientKeyringController example_env) (type ?req)
      = Some ?kr"
    by (rule example_found_ledger_request)
  have deser: "deserialize (kclass ?kr) (prevState ?req) (kstate ?kr) = (Ok (), ?S)"
    by (simp add: example_defs)
  have decode: "buildUnserializedTxFromHex example_env (index (args ?req) 1) = Ok (JTx [248])"
    by (simp add: example_defs index_def)
  have callable: "methods (kclass ?kr) ''signTransaction'' = Some ledger_signTransaction"
    by (simp add: example_ledger_def)
  have returns: "ledger_signTransaction
      (index (args ?req) 0 # JTx [248] # drop 2 (args ?req)) ?S = (Ok (JTx [248, 27]), ?S)"
    by (simp add: ledger_signTransaction_def example_request_def index_def)
  have ser: "serialize (kclass ?kr) ?S = (Ok ?S, ?S)"
    by (simp add: example_ledger_def)
  have hex: "bufferToHex example_env [248, 27] = ''0xf81b''"
    by (simp add: example_env_def hex_byte_def)
  from C4_signTransaction_round_trip [OF sign found deser decode callable returns ser]
  show ?thesis
    by (simp add: hex outcome_def example_request_def index_def)
qed

subsection \<open>A throwing method\<close>

text \<open>
  Claim C5. When the invocation of the keyring method throws (the method throws, or the
  property is not callable), no resolve outcome is emitted for the request: the outcomes of
  the call are at most one reject.
\<close>

theorem C5_throw_never_resolves:
  assumes found: "getKeyringInstanceForType this (type req) = Some kr"
    and deser: "deserialize (kclass kr) (prevState req) (kstate kr) = (Ok (), s1)"
    and pargs: "processArgs env (args req) (method req) = Ok args'"
    and throws: "(methods (kclass kr) (method req) = None
                   \<and> e = TypeError ''keyring[method] is not a function'')
               \<or> (\<exists>f s2. methods (kclass kr) (method req) = Some f
                     \<and> f args' s1 = (Throw e, s2))"
    and call: "handleMethodCall env this req = (r, this', evs)"
  shows "(\<forall>pid d. outcome pid ''resolve'' d \<notin> set (outcomes evs))
       \<and> (outcomes evs = [] \<or> (\<exists>d. outcomes evs = [outcome (promiseId req) ''reject'' d]))"
proof -
  from handleMethodCall_invocation_throws [OF found deser pargs throws]
  obtain this2 ev2 where o: "outcomes ev2 = []"
    and h: "handleMethodCall env this req =
       (case catch_block req (Some (kr\<lparr>kstate := s1\<rparr>)) e this2 of
          (r, this3, ev3) \<Rightarrow>
            (r, this3, [Deserialize (type req) (prevState req)] @ ev2 @ ev3))"
    by blast
  obtain r3 this3 ev3 where c: "catch_block req (Some (kr\<lparr>kstate := s1\<rparr>)) e this2
      = (r3, this3, ev3)" by (metis prod_cases3)
  from h c call have evs: "evs = [Deserialize (type req) (prevState req)] @ ev2 @ ev3"
    by simp
  from catch_block_outcomes [OF c]
  have "outcomes ev3 = [] \<or> (\<exists>d. outcomes ev3 = [outcome (promiseId req) ''reject'' d])"
    by blast
  with evs o
  have alt: "outcomes evs = [] \<or> (\<exists>d. outcomes evs = [outcome (promiseId req) ''reject'' d])"
    by (simp add: outcomes_append)
  then have "\<forall>pid d. outcome pid ''resolve'' d \<notin> set (outcomes evs)"
    by (auto simp: outcome_def)
  with alt show ?thesis by blast
qed

theorem C5_throw_never_resolves_witness:
  "\<forall>pid d. outcome pid ''resolve'' d \<notin> set (outcomes (snd (snd
     (handleMethodCall example_env (new_ClientKeyringController example_env)
        (example_request ''ledger'' ''signTransaction'' [JStr ''m/44'', JStr ''0xf8'']
           (JObj []))))))"
proof -
  let ?req = "example_request ''ledger'' ''signTransaction'' [JStr ''m/44'', JStr ''0xf8''] (JObj [])"
  let ?kr = "\<lparr>kclass = example_ledger, kstate = JObj []\<rparr>"
  have found: "getKeyringInstanceForType (new_ClientKeyringController example_env) (type ?req)
      = Some ?kr"
    by (rule example_found_ledger_request)
  have deser: "deserialize (kclass ?kr) (prevState ?req) (kstate ?kr) = (Ok (), JObj [])"
    by (simp add: example_defs)
  have pargs: "processArgs example_env (args ?req) (method ?req) = Ok [JStr ''m/44'', JTx [248]]"
    by (simp add: processArgs_def example_defs index_def)
  have throws: "(methods (kclass ?kr) (method ?req) = None
        \<and> JError ''Error'' ''User rejected'' Undefined
            = TypeError ''keyring[method] is not a function'')
      \<or> (\<exists>f s2. methods (kclass ?kr) (method ?req) = Some f
            \<and> f [JStr ''m/44'', JTx [248]] (JObj [])
                = (Throw (JError ''Error'' ''User rejected'' Undefined), s2))"
    by (simp add: example_ledger_def example_request_def ledger_signTransaction_def)
  from C5_throw_never_resolves [OF found deser pargs throws example_sign_rejected]
  show ?thesis
    unfolding example_sign_rejected by simp
qed

subsection \<open>The data of a reject\<close>



subsection \<open>The focus gate\<close>

text \<open>
  Claim C7. \<open>handleHardwareCall\<close> first makes sure that the singleton exists. When the document
  has focus, it hands the request to the singleton's \<open>handleMethodCall\<close>, and the result is that
  call's result. When the document has no focus, the request is dropped: the promise is never
  created, no call is made on a keyring or on the background, and an existing singleton, with
  the state of every instance, is left as it was.
\<close>

theorem C7_focus_gate:
  "(documentHasFocus w \<longrightarrow>
      (\<exists>this. clientKeyringController (initializeClientKeyringController env w) = Some this
         \<and> handleHardwareCall env params w =
             (case handleMethodCall env this params of
                (r, this', ev) \<Rightarrow>
                  (r, (initializeClientKeyringController env w)
                        \<lparr>clientKeyringController := Some this',
                         effects := effects w @ ev\<rparr>))))
   \<and> (\<not> documentHasFocus w \<longrightarrow>
        handleHardwareCall env params w = (Ok (), initializeClientKeyringController env w)
        \<and> effects (snd (handleHardwareCall env params w)) = effects w
        \<and> (\<forall>this. clientKeyringController w = Some this \<longrightarrow>
              snd (handleHardwareCall env params w) = w))"
proof (intro conjI impI)
  assume focus: "documentHasFocus w"
  obtain this where this: "clientKeyringController (initializeClientKeyringController env w) = Some this"
    using initialize_defined [of env w] by auto
  with focus show "\<exists>this. clientKeyringController (initializeClientKeyringController env w) = Some this
         \<and> handleHardwareCall env params w =
             (case handleMethodCall env this params of
                (r, this', ev) \<Rightarrow>
                  (r, (initializeClientKeyringController env w)
                        \<lparr>clientKeyringController := Some this',
                         effects := effects w @ ev\<rparr>))"
    by (simp add: handleHardwareCall_def Let_def initialize_focus initialize_effects)
next
  assume nofocus: "\<not> documentHasFocus w"
  then show d: "handleHardwareCall env params w = (Ok (), initializeClientKeyringController env w)"
    by (simp add: handleHardwareCall_def Let_def initialize_focus)
  then show "effects (snd (handleHardwareCall env params w)) = effects w"
    by (simp add: initialize_effects)
  from d show "\<forall>this. clientKeyringController w = Some this \<longrightarrow>
      snd (handleHardwareCall env params w) = w"
    by (simp add: initialize_Some)
qed

theorem C7_focus_gate_witness:
  "handleHardwareCall example_env
     (example_request ''ledger'' ''getAccounts'' [] (JObj [(''accounts'', JStr ''0xabc'')]))
     (example_world True)
   = (Ok (),
      \<lparr>clientKeyringController =
         Some (mutate (new_ClientKeyringController example_env) ''ledger''
                 (JObj [(''accounts'', JStr ''0xabc'')])),
       documentHasFocus = True,
       effects =
         [Deserialize ''ledger'' (JObj [(''accounts'', JStr ''0xabc'')]),
          Invoke ''ledger'' ''getAccounts'' [],
          Serialize ''ledger'',
          CallBackground ''closeBackgroundPromise''
            [outcome (JStr ''p1'') ''resolve''
               (JObj [(''newState'', JObj [(''accounts'', JStr ''0xabc'')]),
                      (''response'', JStr ''0xabc'')])]]\<rparr>)
   \<and> handleHardwareCall example_env
       (example_request ''ledger'' ''getAccounts'' [] (JObj [(''accounts'', JStr ''0xabc'')]))
       (example_world False)
     = (Ok (),
        \<lparr>clientKeyringController = Some (new_ClientKeyringController example_env),
         documentHasFocus = False, effects = []\<rparr>)"
proof -
  let ?req = "example_request ''ledger'' ''getAccounts'' [] (JObj [(''accounts'', JStr ''0xabc'')])"
  have i: "initializeClientKeyringController example_env (example_world b) =
      \<lparr>clientKeyringController = Some (new_ClientKeyringController example_env),
       documentHasFocus = b, effects = []\<rparr>" for b
    by (simp add: initializeClientKeyringController_def example_world_def)
  have t: "documentHasFocus (example_world True)"
    and f: "\<not> documentHasFocus (example_world False)"
    by (simp_all add: example_world_def)
  from C7_focus_gate [of "example_world True" example_env ?req] t
  have a: "handleHardwareCall example_env ?req (example_world True) =
      (case handleMethodCall example_env (new_ClientKeyringController example_env) ?req of
         (r, this', ev) \<Rightarrow>
           (r, (initializeClientKeyringController example_env (example_world True))
                 \<lparr>clientKeyringController := Some this',
                  effects := effects (example_world True) @ ev\<rparr>))"
    by (simp add: i)
  from C7_focus_gate [of "example_world False" example_env ?req] f
  have b: "handleHardwareCall example_env ?req (example_world False) =
      (Ok (), initializeClientKeyringController example_env (example_world False))"
    by simp
  have e: "effects (example_world True) = []"
    by (simp add: example_world_def)
  show ?thesis
    unfolding a b by (simp add: example_getAccounts i e)
qed

subsection \<open>The singleton\<close>

text \<open>
  Claim C8. \<open>initializeClientKeyringController\<close> constructs the singleton when there is none and
  leaves the module as it is when there is one, so that it is idempotent. No function of the
  module resets the variable: after \<open>initializeClientKeyringController\<close> and after
  \<open>handleHardwareCall\<close> the singleton exists, and a call changes the states of its instances
  only, never the class table or which instances there are. The constructor builds one
  instance per class of \<^verbatim>\<open>HARDWARE_KEYRINGS\<close>, in order; when the classes have distinct types,
  that is exactly one instance per supported type.
\<close>

theorem C8_singleton_initialized_once:
  "(clientKeyringController w = None \<longrightarrow>
      initializeClientKeyringController env w =
        w\<lparr>clientKeyringController := Some (new_ClientKeyringController env)\<rparr>)
   \<and> (\<forall>c. clientKeyringController w = Some c \<longrightarrow>
          initializeClientKeyringController env w = w)
   \<and> initializeClientKeyringController env (initializeClientKeyringController env w)
       = initializeClientKeyringController env w
   \<and> clientKeyringController (initializeClientKeyringController env w) \<noteq> None
   \<and> clientKeyringController (snd (handleHardwareCall env params w)) \<noteq> None
   \<and> (\<forall>c. clientKeyringController w = Some c \<longrightarrow>
          (\<exists>c'. clientKeyringController (snd (handleHardwareCall env params w)) = Some c'
                \<and> same_classes c' c))
   \<and> keyrings (new_ClientKeyringController env) = HARDWARE_KEYRINGS env
   \<and> map kclass (keyringInstances (new_ClientKeyringController env)) = HARDWARE_KEYRINGS env
   \<and> (distinct (map ktype (HARDWARE_KEYRINGS env)) \<longrightarrow>
        (\<forall>K \<in> set (HARDWARE_KEYRINGS env).
           length (filter (\<lambda>kr. ktype (kclass kr) = ktype K)
                     (keyringInstances (new_ClientKeyringController env))) = 1))"
proof -
  have idem: "initializeClientKeyringController env (initializeClientKeyringController env w)
       = initializeClientKeyringController env w"
    by (simp add: initializeClientKeyringController_def split: option.splits)
  have one: "distinct (map ktype (HARDWARE_KEYRINGS env)) \<longrightarrow>
        (\<forall>K \<in> set (HARDWARE_KEYRINGS env).
           length (filter (\<lambda>kr. ktype (kclass kr) = ktype K)
                     (keyringInstances (new_ClientKeyringController env))) = 1)"
  proof (intro impI ballI)
    fix K
    assume d: "distinct (map ktype (HARDWARE_KEYRINGS env))" and K: "K \<in> set (HARDWARE_KEYRINGS env)"
    let ?new = "\<lambda>KeyringClass. \<lparr>kclass = KeyringClass, kstate = construct KeyringClass\<rparr>"
    have "filter (\<lambda>kr. ktype (kclass kr) = ktype K) (map ?new (HARDWARE_KEYRINGS env))
        = map ?new (filter (\<lambda>C. ktype C = ktype K) (HARDWARE_KEYRINGS env))"
      by (simp add: filter_map comp_def)
    with length_filter_distinct [OF d K]
    show "length (filter (\<lambda>kr. ktype (kclass kr) = ktype K)
                     (keyringInstances (new_ClientKeyringController env))) = 1"
      by (simp add: new_ClientKeyringController_def)
  qed
  have kept: "\<forall>c. clientKeyringController w = Some c \<longrightarrow>
          (\<exists>c'. clientKeyringController (snd (handleHardwareCall env params w)) = Some c'
                \<and> same_classes c' c)"
    by (auto simp: handleHardwareCall_def Let_def initialize_Some same_classes_refl
        dest!: handleMethodCall_classes split: option.splits prod.splits)
  show ?thesis
    using idem one kept initialize_defined [of env w]
      handleHardwareCall_defined [of env params w] new_controller_instances [of env]
    by (simp add: initialize_None initialize_Some new_ClientKeyringController_def)
qed

theorem C8_singleton_initialized_once_witness:
  "clientKeyringController (example_world True) = None
   \<and> initializeClientKeyringController example_env (example_world True) =
       \<lparr>clientKeyringController = Some (new_ClientKeyringController example_env),
        documentHasFocus = True, effects = []\<rparr>
   \<and> initializeClientKeyringController example_env
        (initializeClientKeyringController example_env (example_world True)) =
       initializeClientKeyringController example_env (example_world True)
   \<and> distinct (map ktype (HARDWARE_KEYRINGS example_env))
   \<and> example_ledger \<in> set (HARDWARE_KEYRINGS example_env)
   \<and> length (filter (\<lambda>kr. ktype (kclass kr) = ktype example_ledger)
         (keyringInstances (new_ClientKeyringController example_env))) = 1"
proof -
  have n: "clientKeyringController (example_world True) = None"
    by (simp add: example_world_def)
  have d: "distinct (map ktype (HARDWARE_KEYRINGS example_env))"
    by (simp add: example_env_def example_ledger_def example_trezor_def)
  have m: "example_ledger \<in> set (HARDWARE_KEYRINGS example_env)"
    by (simp add: example_env_def)
  from C8_singleton_initialized_once [of "example_world True" example_env
      "example_request ''ledger'' ''getAccounts'' [] Null"] n d m
  show ?thesis
    by (auto simp: example_world_def)
qed

subsection \<open>Pass-through of other methods\<close>

text \<open>
  Claim C9. For every method name other than \<^verbatim>\<open>signTransaction\<close>, \<open>processArgs\<close> returns the
  argument list unchanged and \<open>processKeyringResponse\<close> returns the keyring's return value
  unchanged, whatever that value is (a transaction object included).
\<close>

theorem C9_other_methods_pass_through:
  assumes "m \<noteq> ''signTransaction''"
  shows "processArgs env a m = Ok a \<and> processKeyringResponse env res m = Ok res"
  using assms by (simp add: processArgs_def processKeyringResponse_def)

theorem C9_other_methods_pass_through_witness:
  "''getAccounts'' \<noteq> ''signTransaction''
   \<and> processArgs example_env [JNum (Abs_safe_int 0), JStr ''0xf8''] ''getAccounts'' = Ok [JNum (Abs_safe_int 0), JStr ''0xf8'']
   \<and> processKeyringResponse example_env (JTx [248]) ''getAccounts'' = Ok (JTx [248])"
  using C9_other_methods_pass_through
    [of "''getAccounts''" example_env "[JNum (Abs_safe_int 0), JStr ''0xf8'']" "JTx [248]"]
  by simp

subsection \<open>Lookup of an unsupported type\<close>

text \<open>
  Claim C10. For a type string that no class of the table has, \<open>getKeyringClassForType\<close> and
  \<open>getKeyringInstanceForType\<close> return \<^verbatim>\<open>undefined\<close> (\<open>None\<close>); neither lookup throws. The
  failure comes when the result is used: \<open>updateKeyringData\<close> throws a TypeError on it,
  before any call on a keyring. The second hypothesis says that the instances are those of
  the table's classes, as the constructor builds them.
\<close>

theorem C10_unsupported_type_lookup:
  assumes "ty \<notin> set (map ktype (keyrings this))"
    and "map kclass (keyringInstances this) = keyrings this"
  shows "getKeyringClassForType this ty = None
       \<and> getKeyringInstanceForType this ty = None
       \<and> updateKeyringData this ty data =
           (Throw (TypeError ''Cannot read properties of undefined''), this, [])"
proof -
  have c: "getKeyringClassForType this ty = None"
    using assms(1) by (auto simp: getKeyringClassForType_def find_None_iff)
  have i: "getKeyringInstanceForType this ty = None"
    unfolding getKeyringInstanceForType_def
    using assms by (intro find_None_types) simp
  show ?thesis using c i by (simp add: updateKeyringData_def)
qed

theorem C10_unsupported_type_lookup_witness:
  "''unknown'' \<notin> set (map ktype (keyrings (new_ClientKeyringController example_env)))
   \<and> map kclass (keyringInstances (new_ClientKeyringController example_env))
       = keyrings (new_ClientKeyringController example_env)
   \<and> getKeyringClassForType (new_ClientKeyringController example_env) ''unknown'' = None
   \<and> getKeyringInstanceForType (new_ClientKeyringController example_env) ''unknown'' = None
   \<and> updateKeyringData (new_ClientKeyringController example_env) ''unknown'' Null =
         (Throw (TypeError ''Cannot read properties of undefined''),
          new_ClientKeyringController example_env, [])"
proof -
  have a: "''unknown'' \<notin> set (map ktype (keyrings (new_ClientKeyringController example_env)))"
    by (simp add: new_ClientKeyringController_def example_env_def example_ledger_def
        example_trezor_def)
  have b: "map kclass (keyringInstances (new_ClientKeyringController example_env))
       = keyrings (new_ClientKeyringController example_env)"
    by (simp add: new_ClientKeyringController_def comp_def)
  show ?thesis
    using a b C10_unsupported_type_lookup [OF a b, of Null] by simp
qed

end
